theory Spec2Isabelle
  imports Complex_Main "HOL-Library.Code_Target_Numeral"
begin

section \<open>JavaScript values\<close>

text \<open>
  The service passes untyped JSON around (\<^verbatim>\<open>any\<close>): request bodies, upstream
  responses and the registry slots. A value is modelled by the datatype below; an object
  is an association list in insertion order with distinct keys.

  Numbers are IEEE doubles in the source. A number is modelled by the rational value of
  the double; a product or quotient is rounded to the nearest double, ties to even, as the
  hardware does, and a number is printed with the fewest digits that read back as the same
  double, as \<^verbatim>\<open>Number.prototype.toString\<close> does. \<open>NaN\<close> and the infinities are not
  represented: a product beyond the largest double (an amount of \<open>1.8e306\<close> and
  more) is outside the model.
\<close>

datatype jsval =
    JUndefined
  | JNull
  | JBool bool
  | JNum rat
  | JStr string
  | JArr "jsval list"
  | JObj "(string \<times> jsval) list"

text \<open>What a \<^verbatim>\<open>throw\<close> carries: the plain object \<^verbatim>\<open>{ status, error }\<close> thrown by
  \<^verbatim>\<open>marqetaRequest\<close>, or an \<^verbatim>\<open>Error\<close> instance with its message.\<close>

datatype thrown =
    UpstreamError nat jsval
  | JsError string

fun truthy :: "jsval \<Rightarrow> bool" where
  "truthy JUndefined = False"
| "truthy JNull = False"
| "truthy (JBool b) = b"
| "truthy (JNum n) = (n \<noteq> 0)"
| "truthy (JStr s) = (s \<noteq> [])"
| "truthy (JArr xs) = True"
| "truthy (JObj fs) = True"

fun nullish :: "jsval \<Rightarrow> bool" where
  "nullish JUndefined = True"
| "nullish JNull = True"
| "nullish v = False"

definition quote :: string where
  "quote = [CHR 0x27]"

text \<open>\<^verbatim>\<open>v.k\<close>: a TypeError on \<^verbatim>\<open>null\<close> and \<^verbatim>\<open>undefined\<close>, the field of an object,
  \<^verbatim>\<open>undefined\<close> where the field is absent or the value is a primitive.\<close>

fun get_prop :: "jsval \<Rightarrow> string \<Rightarrow> thrown + jsval" where
  "get_prop JUndefined k =
     Inl (JsError (''Cannot read properties of undefined (reading '' @ quote @ k @ quote @ '')''))"
| "get_prop JNull k =
     Inl (JsError (''Cannot read properties of null (reading '' @ quote @ k @ quote @ '')''))"
| "get_prop (JObj fs) k = Inr (case map_of fs k of None \<Rightarrow> JUndefined | Some v \<Rightarrow> v)"
| "get_prop v k = Inr JUndefined"

text \<open>\<^verbatim>\<open>v?.k\<close>: as \<^verbatim>\<open>v.k\<close>, but \<^verbatim>\<open>undefined\<close> on \<^verbatim>\<open>null\<close> and \<^verbatim>\<open>undefined\<close>.\<close>

definition opt_prop :: "jsval \<Rightarrow> string \<Rightarrow> jsval" where
  "opt_prop v k = (case get_prop v k of Inl e \<Rightarrow> JUndefined | Inr x \<Rightarrow> x)"

text \<open>Assignment of one key in an object literal: an existing key keeps its place.\<close>

fun obj_set :: "(string \<times> jsval) list \<Rightarrow> string \<Rightarrow> jsval \<Rightarrow> (string \<times> jsval) list" where
  "obj_set [] k v = [(k, v)]"
| "obj_set ((k', v') # fs) k v = (if k' = k then (k, v) # fs else (k', v') # obj_set fs k v)"

subsection \<open>Strings and numbers\<close>

definition digit_char :: "nat \<Rightarrow> char" where
  "digit_char d = ''0123456789'' ! (d mod 10)"

definition is_digit :: "char \<Rightarrow> bool" where
  "is_digit c = (c \<in> set ''0123456789'')"

function nat_toString :: "nat \<Rightarrow> string" where
  "nat_toString n =
     (if n < 10 then [digit_char n] else nat_toString (n div 10) @ [digit_char (n mod 10)])"
  by pat_completeness auto
termination
  by (relation "measure id") auto

declare nat_toString.simps [simp del]

text \<open>The digits of an integer, as \<^verbatim>\<open>Date.now().toString()\<close> prints the clock.\<close>

definition int_toString :: "int \<Rightarrow> string" where
  "int_toString i = (if i < 0 then ''-'' @ nat_toString (nat (- i)) else nat_toString (nat i))"

definition int_power :: "rat \<Rightarrow> int \<Rightarrow> rat" where
  "int_power b e = (if 0 \<le> e then b ^ nat e else 1 / b ^ nat (- e))"

text \<open>The number of digits of \<open>n\<close> in base \<open>b\<close>.\<close>

function digit_count :: "nat \<Rightarrow> nat \<Rightarrow> nat" where
  "digit_count b n = (if b < 2 \<or> n < b then 1 else Suc (digit_count b (n div b)))"
  by pat_completeness auto
termination
  by (relation "measure snd") auto

declare digit_count.simps [simp del]

text \<open>For \<open>q > 0\<close> and \<open>b > 1\<close>: the \<open>e\<close> with \<open>b^e \<le> q < b^(e+1)\<close>.\<close>

definition floor_log :: "nat \<Rightarrow> rat \<Rightarrow> int" where
  "floor_log b q =
     (case quotient_of q of (n, d) \<Rightarrow>
        let e = int (digit_count b (nat n)) - int (digit_count b (nat d))
        in if int_power (of_nat b) e \<le> q then e else e - 1)"

text \<open>Rounding to the nearest integer, a half to the even neighbour.\<close>

definition round_half_even :: "rat \<Rightarrow> int" where
  "round_half_even r =
     (let f = \<lfloor>r\<rfloor>; d = r - of_int f
      in if d < 1 / 2 then f else if 1 / 2 < d then f + 1 else if even f then f else f + 1)"

text \<open>
  The double nearest to a rational: 53 significant bits, the exponent not below that of
  the subnormal numbers. Reading a number from JSON text rounds it this way.
\<close>

definition to_double :: "rat \<Rightarrow> rat" where
  "to_double q =
     (if q = 0 then 0
      else
        let a = \<bar>q\<bar>;
            e = max (floor_log 2 a) (- 1022);
            ulp = int_power 2 (e - 52)
        in sgn q * of_int (round_half_even (a / ulp)) * ulp)"

text \<open>\<^verbatim>\<open>a * b\<close> and \<^verbatim>\<open>a / b\<close> on doubles.\<close>

definition double_times :: "rat \<Rightarrow> rat \<Rightarrow> rat" where
  "double_times a b = to_double (to_double a * to_double b)"

definition double_divide :: "rat \<Rightarrow> rat \<Rightarrow> rat" where
  "double_divide a b = to_double (to_double a / to_double b)"

text \<open>\<^verbatim>\<open>Math.round\<close>: the nearest integer, a half rounded up.\<close>

definition Math_round :: "rat \<Rightarrow> rat" where
  "Math_round x = of_int \<lfloor>x + 1 / 2\<rfloor>"

text \<open>
  \<^verbatim>\<open>Number.prototype.toString()\<close>. For a positive double \<open>x\<close> with
  \<open>10^(n-1) \<le> x < 10^n\<close>, a \<open>k\<close>-digit integer \<open>s\<close> is a candidate when
  \<open>s * 10^(n-k)\<close> rounds to \<open>x\<close>; the nearer of the two neighbours of \<open>x\<close> is taken
  (the even one at a tie), for the least \<open>k\<close> that has a candidate, and 17 digits always
  have one. The digits are then laid out in positional notation for \<open>-6 < n \<le> 21\<close>
  and in exponent notation otherwise.
\<close>

definition candidate :: "rat \<Rightarrow> int \<Rightarrow> nat \<Rightarrow> int option" where
  "candidate x n k =
     (let scale = int_power 10 (n - int k);
          lo = \<lfloor>x / scale\<rfloor>;
          below = (to_double (of_int lo * scale) = x);
          above = (to_double (of_int (lo + 1) * scale) = x)
      in if below \<and> above then
           (if x - of_int lo * scale < of_int (lo + 1) * scale - x then Some lo
            else if of_int (lo + 1) * scale - x < x - of_int lo * scale then Some (lo + 1)
            else if even lo then Some lo else Some (lo + 1))
         else if below then Some lo
         else if above then Some (lo + 1)
         else None)"

fun shortest :: "rat \<Rightarrow> int \<Rightarrow> nat list \<Rightarrow> int \<times> nat" where
  "shortest x n [] = (0, 0)"
| "shortest x n (k # ks) =
     (case candidate x n k of Some s \<Rightarrow> (s, k) | None \<Rightarrow> shortest x n ks)"

definition positive_toString :: "rat \<Rightarrow> string" where
  "positive_toString x =
     (let n0 = floor_log 10 x + 1;
          (s0, k) = shortest x n0 [1, 2, 3, 4, 5, 6, 7, 8, 9, 10, 11, 12, 13, 14, 15, 16, 17];
          (s, n) = (if s0 = 10 ^ k then (10 ^ (k - 1), n0 + 1) else (s0, n0));
          digits = nat_toString (nat s)
      in if int k \<le> n \<and> n \<le> 21 then digits @ replicate (nat (n - int k)) CHR ''0''
         else if 0 < n \<and> n \<le> 21 then take (nat n) digits @ ''.'' @ drop (nat n) digits
         else if - 6 < n \<and> n \<le> 0 then ''0.'' @ replicate (nat (- n)) CHR ''0'' @ digits
         else
           (if k = 1 then digits else take 1 digits @ ''.'' @ drop 1 digits)
           @ ''e'' @ (if n - 1 < 0 then ''-'' else ''+'') @ nat_toString (nat \<bar>n - 1\<bar>))"

definition num_toString :: "rat \<Rightarrow> string" where
  "num_toString q =
     (let x = to_double q
      in if x = 0 then ''0''
         else if x < 0 then ''-'' @ positive_toString (- x)
         else positive_toString x)"

text \<open>\<^verbatim>\<open>s.slice(-n)\<close>, \<^verbatim>\<open>s.substring(a, b)\<close> for \<open>a \<le> b\<close>, \<^verbatim>\<open>s.split(c)\<close> and
  \<^verbatim>\<open>s.replace(c, '')\<close> on a one-character pattern.\<close>

definition slice_last :: "nat \<Rightarrow> string \<Rightarrow> string" where
  "slice_last n s = drop (length s - n) s"

definition substring :: "nat \<Rightarrow> nat \<Rightarrow> string \<Rightarrow> string" where
  "substring a b s = take (b - a) (drop a s)"

fun split_on :: "char \<Rightarrow> string \<Rightarrow> string list" where
  "split_on c [] = [[]]"
| "split_on c (x # xs) =
     (if x = c then [] # split_on c xs
      else (case split_on c xs of [] \<Rightarrow> [[x]] | p # ps \<Rightarrow> (x # p) # ps))"

definition piece :: "nat \<Rightarrow> string list \<Rightarrow> string" where
  "piece i ps = (case drop i ps of [] \<Rightarrow> ''undefined'' | p # _ \<Rightarrow> p)"

definition replace_first :: "char \<Rightarrow> string \<Rightarrow> string" where
  "replace_first c s = remove1 c s"

text \<open>Spreading a value into an object literal: the fields of an object, the indexed
  elements of an array or string, nothing for anything else.\<close>

fun spread :: "jsval \<Rightarrow> (string \<times> jsval) list" where
  "spread (JObj fs) = fs"
| "spread (JArr xs) = map (\<lambda>(i, x). (nat_toString i, x)) (enumerate 0 xs)"
| "spread (JStr s) = map (\<lambda>(i, c). (nat_toString i, JStr [c])) (enumerate 0 s)"
| "spread v = []"

definition assign_all :: "(string \<times> jsval) list \<Rightarrow> (string \<times> jsval) list \<Rightarrow> (string \<times> jsval) list" where
  "assign_all fs gs = foldl (\<lambda>acc (k, v). obj_set acc k v) fs gs"

section \<open>The outside world\<close>

text \<open>
  An outbound HTTP request is its method, URL and JSON body (the headers are the same
  fixed credentials on every call). The upstream platform answers either with a
  transport failure or with a status, a status text, the raw body and what
  \<^verbatim>\<open>response.json()\<close> makes of it: a syntax error or a value.
\<close>

record request =
  req_method :: string
  req_url :: string
  req_body :: "jsval option"

datatype http_reply =
    FetchFailed string
  | HttpReply nat string string "string + jsval"

text \<open>
  Everything the code reads from outside is a field of the environment, indexed by the
  number of outbound calls made so far: the platform's reply to a request, the clock
  (\<^verbatim>\<open>Date.now()\<close>), \<^verbatim>\<open>Math.random().toString(36)\<close>, and the two renderings of
  \<^verbatim>\<open>new Date()\<close>.
\<close>

record env =
  upstream :: "nat \<Rightarrow> request \<Rightarrow> http_reply"
  date_now :: "nat \<Rightarrow> int"
  math_random :: "nat \<Rightarrow> string"
  time_string :: "nat \<Rightarrow> string"
  iso_string :: "nat \<Rightarrow> string"

text \<open>The in-memory registry of \<^verbatim>\<open>lib/marqeta.ts\<close> and the log of outbound calls.\<close>

record resources =
  r_fundingSource :: jsval
  r_cardProduct :: jsval
  r_user :: jsval
  r_card :: jsval
  r_velocityControl :: jsval

record world =
  registry :: resources
  calls :: "request list"

definition USER_BALANCE_LIMIT :: rat where
  "USER_BALANCE_LIMIT = 10000"

definition MARQETA_API_BASE :: string where
  "MARQETA_API_BASE = ''sandbox-api.marqeta.com''"

definition response_ok :: "nat \<Rightarrow> bool" where
  "response_ok status = (200 \<le> status \<and> status \<le> 299)"

text \<open>\<^verbatim>\<open>fetch\<close>: the call is logged and the environment answers it.\<close>

definition fetch :: "env \<Rightarrow> request \<Rightarrow> world \<Rightarrow> http_reply \<times> world" where
  "fetch E rq w = (upstream E (length (calls w)) rq, w\<lparr>calls := calls w @ [rq]\<rparr>)"

section \<open>lib/marqeta.ts\<close>

definition api_request :: "string \<Rightarrow> string \<Rightarrow> jsval \<Rightarrow> request" where
  "api_request method path data =
     \<lparr>req_method = method,
      req_url = ''https://'' @ MARQETA_API_BASE @ ''/v3'' @ path,
      req_body = (if truthy data then Some data else None)\<rparr>"

definition marqetaRequest ::
  "env \<Rightarrow> string \<Rightarrow> string \<Rightarrow> jsval \<Rightarrow> world \<Rightarrow> (thrown + nat \<times> jsval) \<times> world" where
  "marqetaRequest E method path data w =
     (case fetch E (api_request method path data) w of
        (FetchFailed m, w') \<Rightarrow> (Inl (JsError m), w')
      | (HttpReply status statusText text parsed, w') \<Rightarrow>
          if \<not> response_ok status then
            (Inl (UpstreamError status
                    (case parsed of Inl _ \<Rightarrow> JObj [(''message'', JStr statusText)] | Inr e \<Rightarrow> e)), w')
          else
            (Inr (status, (case parsed of Inl _ \<Rightarrow> JObj [] | Inr d \<Rightarrow> d)), w'))"

definition testConnection :: "env \<Rightarrow> world \<Rightarrow> bool \<times> world" where
  "testConnection E w =
     (case marqetaRequest E ''GET'' ''/cardproducts?count=1'' JNull w of
        (Inr response, w') \<Rightarrow> (True, w')
      | (Inl error, w') \<Rightarrow> (False, w'))"

definition generateToken :: "env \<Rightarrow> nat \<Rightarrow> string \<Rightarrow> string" where
  "generateToken E t prefix =
     (let timestamp = slice_last 8 (int_toString (date_now E t));
          random = substring 2 6 (math_random E t)
      in prefix @ ''_'' @ timestamp @ ''_'' @ random)"

text \<open>The first five characters of the clock part of \<^verbatim>\<open>toTimeString()\<close>:
  \<^verbatim>\<open>.split(' ')[0].substring(0, 5)\<close>.\<close>

definition time_hhmm :: "string \<Rightarrow> string" where
  "time_hhmm s = substring 0 5 (piece 0 (split_on CHR '' '' s))"

definition rocket :: string where
  "rocket = [CHR 0xF0, CHR 0x9F, CHR 0x9A, CHR 0x80]"

definition high_voltage :: string where
  "high_voltage = [CHR 0xE2, CHR 0x9A, CHR 0xA1]"

definition defaultFundingSource :: jsval where
  "defaultFundingSource =
     JObj [(''token'', JStr ''sandbox_program_funding''),
           (''name'', JStr ''Default Sandbox Program Funding'')]"

definition fundingSourceData :: "env \<Rightarrow> nat \<Rightarrow> jsval" where
  "fundingSourceData E t =
     (let token = generateToken E t ''fund'';
          time = replace_first CHR '':'' (time_hhmm (time_string E t))
      in JObj [(''token'', JStr token),
               (''name'', JStr (rocket @ '' JIT-OneClick-'' @ time))])"

text \<open>The \<^verbatim>\<open>try\<close> stores and returns the response; the \<^verbatim>\<open>catch\<close> stores and returns the
  sandbox default. Either way the function returns normally.\<close>

definition createProgramFundingSource :: "env \<Rightarrow> world \<Rightarrow> jsval \<times> world" where
  "createProgramFundingSource E w =
     (case marqetaRequest E ''POST'' ''/fundingsources/program''
             (fundingSourceData E (length (calls w))) w of
        (Inr (status, data), w') \<Rightarrow>
          (data, w'\<lparr>registry := (registry w')\<lparr>r_fundingSource := data\<rparr>\<rparr>)
      | (Inl error, w') \<Rightarrow>
          (defaultFundingSource,
           w'\<lparr>registry := (registry w')\<lparr>r_fundingSource := defaultFundingSource\<rparr>\<rparr>))"

definition cardProductData :: "env \<Rightarrow> nat \<Rightarrow> jsval \<Rightarrow> jsval" where
  "cardProductData E t fundingSourceToken =
     (let token = generateToken E t ''prod'';
          time = replace_first CHR '':'' (time_hhmm (time_string E t))
      in JObj [(''token'', JStr token),
               (''name'', JStr (high_voltage @ '' OneClick-Card-'' @ time)),
               (''start_date'', JStr ''2025-01-01''),
               (''config'', JObj
                  [(''fulfillment'', JObj [(''payment_instrument'', JStr ''VIRTUAL_PAN'')]),
                   (''poi'', JObj [(''ecommerce'', JBool True), (''atm'', JBool False)]),
                   (''card_life_cycle'', JObj [(''activate_upon_issue'', JBool True)]),
                   (''jit_funding'', JObj
                      [(''program_funding_source'', JObj
                          [(''funding_source_token'', fundingSourceToken),
                           (''refunds_destination'', JStr ''PROGRAM_FUNDING_SOURCE''),
                           (''enabled'', JBool True)])])])])"

definition createCardProduct :: "env \<Rightarrow> jsval \<Rightarrow> world \<Rightarrow> (thrown + jsval) \<times> world" where
  "createCardProduct E fundingSourceToken w =
     (case marqetaRequest E ''POST'' ''/cardproducts''
             (cardProductData E (length (calls w)) fundingSourceToken) w of
        (Inl error, w') \<Rightarrow> (Inl error, w')
      | (Inr (status, data), w') \<Rightarrow>
          (Inr data, w'\<lparr>registry := (registry w')\<lparr>r_cardProduct := data\<rparr>\<rparr>))"

definition userRequestData :: "env \<Rightarrow> nat \<Rightarrow> jsval \<Rightarrow> jsval" where
  "userRequestData E t userData =
     (let token = generateToken E t ''user'';
          timestamp = piece 0 (split_on CHR ''T'' (iso_string E t));
          time = time_hhmm (time_string E t)
      in JObj (assign_all
           [(''token'', JStr token),
            (''first_name'', JStr ''OneClick''),
            (''last_name'', JStr (''User-'' @ time)),
            (''email'', JStr (''oneclick-'' @ piece 2 (split_on CHR ''_'' token) @ ''@test.marqeta'')),
            (''metadata'', JObj
               [(''balance_limit'', JNum USER_BALANCE_LIMIT),
                (''notes'', JStr (''Created for One-Click Pay testing - '' @ timestamp @ '' '' @ time))])]
           (spread userData)))"

definition createUser :: "env \<Rightarrow> jsval \<Rightarrow> world \<Rightarrow> (thrown + jsval) \<times> world" where
  "createUser E userData w =
     (case marqetaRequest E ''POST'' ''/users'' (userRequestData E (length (calls w)) userData) w of
        (Inl error, w') \<Rightarrow> (Inl error, w')
      | (Inr (status, data), w') \<Rightarrow>
          (Inr data, w'\<lparr>registry := (registry w')\<lparr>r_user := data\<rparr>\<rparr>))"

definition cardData :: "env \<Rightarrow> nat \<Rightarrow> jsval \<Rightarrow> jsval \<Rightarrow> jsval" where
  "cardData E t userToken cardProductToken =
     (let token = generateToken E t ''card'';
          time = replace_first CHR '':'' (time_hhmm (time_string E t))
      in JObj [(''token'', JStr token),
               (''user_token'', userToken),
               (''card_product_token'', cardProductToken),
               (''metadata'', JObj
                  [(''notes'', JStr (''Virtual card for One-Click Pay - '' @ time))])])"

definition createCard :: "env \<Rightarrow> jsval \<Rightarrow> jsval \<Rightarrow> world \<Rightarrow> (thrown + jsval) \<times> world" where
  "createCard E userToken cardProductToken w =
     (case marqetaRequest E ''POST'' ''/cards?show_pan=true&show_cvv_number=true''
             (cardData E (length (calls w)) userToken cardProductToken) w of
        (Inl error, w') \<Rightarrow> (Inl error, w')
      | (Inr (status, data), w') \<Rightarrow>
          (Inr data, w'\<lparr>registry := (registry w')\<lparr>r_card := data\<rparr>\<rparr>))"

definition velocityControlData :: "jsval \<Rightarrow> string \<Rightarrow> jsval" where
  "velocityControlData userToken name =
     JObj [(''name'', JStr name),
           (''association'', JObj [(''user_token'', userToken)]),
           (''amount_limit'', JNum USER_BALANCE_LIMIT),
           (''currency_code'', JStr ''USD''),
           (''velocity_window'', JStr ''DAY''),
           (''active'', JBool True)]"

definition createVelocityControl ::
  "env \<Rightarrow> jsval \<Rightarrow> string \<Rightarrow> world \<Rightarrow> (thrown + jsval) \<times> world" where
  "createVelocityControl E userToken name w =
     (case marqetaRequest E ''POST'' ''/velocitycontrols'' (velocityControlData userToken name) w of
        (Inl error, w') \<Rightarrow> (Inl error, w')
      | (Inr (status, data), w') \<Rightarrow>
          (Inr data, w'\<lparr>registry := (registry w')\<lparr>r_velocityControl := data\<rparr>\<rparr>))"

definition transactionData :: "jsval \<Rightarrow> rat \<Rightarrow> string option \<Rightarrow> jsval" where
  "transactionData cardToken amount webhookEndpoint =
     JObj [(''amount'', JStr (num_toString amount)),
           (''card_token'', cardToken),
           (''card_acceptor'', JObj
              [(''mid'', JStr ''1234567890''),
               (''name'', JStr ''Test Merchant''),
               (''street_address'', JStr ''123 Main St''),
               (''city'', JStr ''San Francisco''),
               (''state'', JStr ''CA''),
               (''zip'', JStr ''94105''),
               (''country_code'', JStr ''USA'')]),
           (''network'', JStr ''VISA''),
           (''webhook'',
              (case webhookEndpoint of
                 None \<Rightarrow> JUndefined
               | Some endpoint \<Rightarrow>
                   if endpoint = [] then JUndefined
                   else JObj [(''endpoint'', JStr endpoint),
                              (''username'', JStr ''webhook_user''),
                              (''password'', JStr ''webhook_password'')]))]"

definition simulateTransaction ::
  "env \<Rightarrow> jsval \<Rightarrow> rat \<Rightarrow> string option \<Rightarrow> world \<Rightarrow> (thrown + jsval) \<times> world" where
  "simulateTransaction E cardToken amount webhookEndpoint w =
     (case marqetaRequest E ''POST'' ''/simulations/cardtransactions/authorization''
             (transactionData cardToken amount webhookEndpoint) w of
        (Inl error, w') \<Rightarrow> (Inl error, w')
      | (Inr (status, data), w') \<Rightarrow> (Inr data, w'))"

definition clearingData :: "jsval \<Rightarrow> rat \<Rightarrow> jsval" where
  "clearingData transactionToken amount =
     JObj [(''preceding_related_transaction_token'', transactionToken),
           (''amount'', JNum (double_divide amount 100))]"

definition clearTransaction :: "env \<Rightarrow> jsval \<Rightarrow> rat \<Rightarrow> world \<Rightarrow> (thrown + jsval) \<times> world" where
  "clearTransaction E transactionToken amount w =
     (case marqetaRequest E ''POST'' ''/simulations/cardtransactions/authorization.clearing''
             (clearingData transactionToken amount) w of
        (Inl error, w') \<Rightarrow> (Inl error, w')
      | (Inr (status, data), w') \<Rightarrow> (Inr data, w'))"

definition getUserBalance :: "env \<Rightarrow> string \<Rightarrow> world \<Rightarrow> (thrown + jsval) \<times> world" where
  "getUserBalance E userToken w =
     (case marqetaRequest E ''GET'' (''/users/'' @ userToken) JNull w of
        (Inl error, w') \<Rightarrow> (Inl error, w')
      | (Inr (status, data), w') \<Rightarrow> (Inr data, w'))"

definition getResources :: "world \<Rightarrow> resources" where
  "getResources w = registry w"

subsection \<open>The setup orchestrator\<close>

datatype setup_result =
    Success jsval jsval jsval jsval jsval
  | Failure jsval

text \<open>Sequencing of steps that may throw: the first throw ends the \<^verbatim>\<open>try\<close> block.\<close>

definition bindE ::
  "(world \<Rightarrow> (thrown + 'a) \<times> world) \<Rightarrow> ('a \<Rightarrow> world \<Rightarrow> (thrown + 'b) \<times> world) \<Rightarrow>
   world \<Rightarrow> (thrown + 'b) \<times> world" where
  "bindE m f w = (case m w of (Inl e, w') \<Rightarrow> (Inl e, w') | (Inr x, w') \<Rightarrow> f x w')"

definition pure_step :: "thrown + 'a \<Rightarrow> world \<Rightarrow> (thrown + 'a) \<times> world" where
  "pure_step r w = (r, w)"

text \<open>\<^verbatim>\<open>error.error || error.message\<close> on what was caught.\<close>

fun error_or_message :: "thrown \<Rightarrow> jsval" where
  "error_or_message (UpstreamError status e) = (if truthy e then e else JUndefined)"
| "error_or_message (JsError m) = JStr m"

text \<open>The body of the \<^verbatim>\<open>try\<close>. Each \<^verbatim>\<open>console.log\<close> reads the \<^verbatim>\<open>token\<close> of the
  entity just returned, which throws when the entity is \<^verbatim>\<open>null\<close>.\<close>

definition setup_try ::
  "env \<Rightarrow> world \<Rightarrow> (thrown + jsval \<times> jsval \<times> jsval \<times> jsval \<times> jsval) \<times> world" where
  "setup_try E w =
     (case testConnection E w of (isConnected, w0) \<Rightarrow>
        if \<not> isConnected then
          (Inl (JsError ''Failed to connect to Marqeta API. Please check your credentials.''), w0)
        else
          (case createProgramFundingSource E w0 of (fundingSource, w1) \<Rightarrow>
             bindE (pure_step (get_prop fundingSource ''token'')) (\<lambda>fundingSourceToken.
             bindE (createCardProduct E fundingSourceToken) (\<lambda>cardProduct.
             bindE (pure_step (get_prop cardProduct ''token'')) (\<lambda>cardProductToken.
             bindE (createUser E JUndefined) (\<lambda>user.
             bindE (pure_step (get_prop user ''token'')) (\<lambda>userToken.
             bindE (createCard E userToken cardProductToken) (\<lambda>card'.
             bindE (pure_step (get_prop card' ''token'')) (\<lambda>cardToken.
             bindE (createVelocityControl E userToken ''Daily Spend Limit'') (\<lambda>velocityControl.
             bindE (pure_step (get_prop velocityControl ''token'')) (\<lambda>velocityControlToken.
             pure_step (Inr (fundingSource, cardProduct, user, card', velocityControl))))))))))) w1))"

definition setupJITFunding :: "env \<Rightarrow> world \<Rightarrow> setup_result \<times> world" where
  "setupJITFunding E w =
     (case setup_try E w of
        (Inr (fundingSource, cardProduct, user, card', velocityControl), w') \<Rightarrow>
          (Success fundingSource cardProduct user card' velocityControl, w')
      | (Inl error, w') \<Rightarrow> (Failure (error_or_message error), w'))"

section \<open>The payment endpoints\<close>

text \<open>
  An endpoint receives the HTTP method and the JSON body, whose fields are modelled with
  the types the pages send: strings, numbers and booleans, each possibly absent. It
  answers with a status and a JSON document.
\<close>

type_synonym response = "nat \<times> jsval"

definition method_not_allowed :: response where
  "method_not_allowed = (405, JObj [(''error'', JStr ''Method not allowed'')])"

definition bad_request :: "string \<Rightarrow> response" where
  "bad_request msg = (400, JObj [(''error'', JStr msg)])"

text \<open>\<^verbatim>\<open>!s\<close> on a string field and \<^verbatim>\<open>!amount\<close> on a number field; the value of a field
  (a number field holds the double its JSON text was read as).\<close>

definition str_missing :: "string option \<Rightarrow> bool" where
  "str_missing s = (case s of None \<Rightarrow> True | Some x \<Rightarrow> x = [])"

definition num_missing :: "rat option \<Rightarrow> bool" where
  "num_missing a = (case a of None \<Rightarrow> True | Some x \<Rightarrow> to_double x = 0)"

definition str_of :: "string option \<Rightarrow> string" where
  "str_of s = (case s of None \<Rightarrow> [] | Some x \<Rightarrow> x)"

definition num_of :: "rat option \<Rightarrow> rat" where
  "num_of a = (case a of None \<Rightarrow> 0 | Some x \<Rightarrow> to_double x)"

text \<open>\<^verbatim>\<open>!amount || amount <= 0\<close>.\<close>

definition amount_invalid :: "rat option \<Rightarrow> bool" where
  "amount_invalid a = (num_missing a \<or> num_of a \<le> 0)"

text \<open>
  The white space of a regular expression (\<^verbatim>\<open>\s\<close>). A string is its UTF-8 bytes here, so
  a white-space character is one ASCII byte (tab, line feed, vertical tab, form feed,
  carriage return, space) or the encoding of U+00A0, U+1680, U+2000 to U+200A, U+2028,
  U+2029, U+202F, U+205F, U+3000 or U+FEFF.
\<close>

definition is_space :: "char \<Rightarrow> bool" where
  "is_space c = (c \<in> set [CHR 0x09, CHR 0x0A, CHR 0x0B, CHR 0x0C, CHR 0x0D, CHR 0x20])"

definition wide_spaces :: "string list" where
  "wide_spaces =
     [[CHR 0xC2, CHR 0xA0],
      [CHR 0xE1, CHR 0x9A, CHR 0x80],
      [CHR 0xE2, CHR 0x80, CHR 0x80], [CHR 0xE2, CHR 0x80, CHR 0x81],
      [CHR 0xE2, CHR 0x80, CHR 0x82], [CHR 0xE2, CHR 0x80, CHR 0x83],
      [CHR 0xE2, CHR 0x80, CHR 0x84], [CHR 0xE2, CHR 0x80, CHR 0x85],
      [CHR 0xE2, CHR 0x80, CHR 0x86], [CHR 0xE2, CHR 0x80, CHR 0x87],
      [CHR 0xE2, CHR 0x80, CHR 0x88], [CHR 0xE2, CHR 0x80, CHR 0x89],
      [CHR 0xE2, CHR 0x80, CHR 0x8A],
      [CHR 0xE2, CHR 0x80, CHR 0xA8], [CHR 0xE2, CHR 0x80, CHR 0xA9],
      [CHR 0xE2, CHR 0x80, CHR 0xAF],
      [CHR 0xE2, CHR 0x81, CHR 0x9F],
      [CHR 0xE3, CHR 0x80, CHR 0x80],
      [CHR 0xEF, CHR 0xBB, CHR 0xBF]]"

text \<open>The number of bytes of the white-space character a string starts with, 0 when it
  starts with none.\<close>

definition space_prefix :: "string \<Rightarrow> nat" where
  "space_prefix s =
     (case s of
        [] \<Rightarrow> 0
      | c # _ \<Rightarrow>
          if is_space c then 1
          else (case filter (\<lambda>p. take (length p) s = p) wide_spaces of
                  [] \<Rightarrow> 0
                | p # _ \<Rightarrow> length p))"

text \<open>\<^verbatim>\<open>s.replace(/\s/g, '')\<close>.\<close>

fun strip_spaces :: "string \<Rightarrow> string" where
  "strip_spaces [] = []"
| "strip_spaces (c # s) =
     (if space_prefix (c # s) = 0 then c # strip_spaces s
      else strip_spaces (drop (space_prefix (c # s) - 1) s))"

text \<open>\<^verbatim>\<open>/^\d{13,19}$/.test(pan.replace(/\s/g, ''))\<close>.\<close>

definition panRegex_test :: "string \<Rightarrow> bool" where
  "panRegex_test pan =
     (let digits = strip_spaces pan
      in 13 \<le> length digits \<and> length digits \<le> 19 \<and> list_all is_digit digits)"

text \<open>The \<^verbatim>\<open>catch\<close> shared by the three payment endpoints that go through
  \<^verbatim>\<open>lib/marqeta.ts\<close>.\<close>

fun payment_error_response :: "thrown \<Rightarrow> response" where
  "payment_error_response (UpstreamError status e) =
     (if truthy e then
        (if status \<noteq> 0 then status else 500,
         JObj [(''success'', JBool False),
               (''error'', (if truthy (opt_prop e ''message'') then opt_prop e ''message'' else e)),
               (''details'', e)])
      else
        (if status \<noteq> 0 then status else 500,
         JObj [(''success'', JBool False),
               (''error'', JStr ''Payment processing failed''),
               (''details'', JNull)]))"
| "payment_error_response (JsError m) =
     (500,
      JObj [(''success'', JBool False),
            (''error'', JStr (if m \<noteq> [] then m else ''Payment processing failed'')),
            (''details'', JNull)])"

definition run_try ::
  "(thrown \<Rightarrow> response) \<Rightarrow> (world \<Rightarrow> (thrown + response) \<times> world) \<Rightarrow> world \<Rightarrow> response \<times> world" where
  "run_try handle body w =
     (case body w of (Inl error, w') \<Rightarrow> (handle error, w') | (Inr r, w') \<Rightarrow> (r, w'))"

text \<open>\<^verbatim>\<open>autoClear && transaction.transaction?.token\<close>: nothing is read when
  \<^verbatim>\<open>autoClear\<close> is false; otherwise \<^verbatim>\<open>transaction.transaction\<close> throws on a
  \<^verbatim>\<open>null\<close> response.\<close>

definition clear_condition :: "bool \<Rightarrow> jsval \<Rightarrow> thrown + jsval" where
  "clear_condition autoClear transaction =
     (if \<not> autoClear then Inr (JBool False)
      else (case get_prop transaction ''transaction'' of
              Inl e \<Rightarrow> Inl e
            | Inr inner \<Rightarrow> Inr (opt_prop inner ''token'')))"

text \<open>The transaction handed back after a successful clearing:
  \<^verbatim>\<open>{ ...transaction.transaction, state: 'CLEARED' }\<close>.\<close>

definition cleared_copy :: "jsval \<Rightarrow> jsval" where
  "cleared_copy transaction =
     JObj (obj_set (spread (opt_prop transaction ''transaction'')) ''state'' (JStr ''CLEARED''))"

definition with_fields :: "jsval \<Rightarrow> (string \<times> jsval) list \<Rightarrow> jsval" where
  "with_fields v extra = JObj (assign_all (spread v) extra)"

subsection \<open>pages/api/marqeta/nfc-pay.ts\<close>

record nfc_request =
  nfc_method :: string
  nfc_pan :: "string option"
  nfc_amount :: "rat option"
  nfc_autoClear :: "bool option"

definition card_not_found :: response where
  "card_not_found =
     (404, JObj [(''error'', JStr ''Card not found. Please setup JIT funding first.''),
                 (''hint'', JStr ''The PAN from the NFC card must match the card created in the system.'')])"

definition nfc_clear ::
  "env \<Rightarrow> string \<Rightarrow> jsval \<Rightarrow> rat \<Rightarrow> world \<Rightarrow> (thrown + response) \<times> world" where
  "nfc_clear E pan transaction amountInCents w =
     (case clearTransaction E (opt_prop (opt_prop transaction ''transaction'') ''token'')
             amountInCents w of
        (Inr clearedTransaction, w') \<Rightarrow>
          (Inr (200, JObj [(''success'', JBool True),
                           (''data'', JObj
                              [(''transaction'', cleared_copy transaction),
                               (''gpa_order'', opt_prop transaction ''gpa_order''),
                               (''cleared'', JBool True),
                               (''cardLast4'', JStr (slice_last 4 pan))])]), w')
      | (Inl clearError, w') \<Rightarrow>
          (Inr (200, JObj [(''success'', JBool True),
                           (''data'', with_fields transaction
                              [(''warning'', JStr ''Transaction authorized but auto-clear failed''),
                               (''cardLast4'', JStr (slice_last 4 pan))])]), w'))"

definition nfc_pay_try ::
  "env \<Rightarrow> nfc_request \<Rightarrow> world \<Rightarrow> (thrown + response) \<times> world" where
  "nfc_pay_try E req w =
     (let pan = str_of (nfc_pan req);
          amount = num_of (nfc_amount req);
          autoClear = (case nfc_autoClear req of None \<Rightarrow> True | Some b \<Rightarrow> b)
      in if str_missing (nfc_pan req) then
           (Inr (bad_request ''PAN (card number) is required''), w)
         else if \<not> panRegex_test pan then
           (Inr (bad_request ''Invalid PAN format. Must be 13-19 digits''), w)
         else if amount_invalid (nfc_amount req) then
           (Inr (bad_request ''Valid amount is required''), w)
         else
           (let resources = getResources w in
            if \<not> truthy (r_card resources) then (Inr card_not_found, w)
            else
              bindE (pure_step (get_prop (r_card resources) ''pan'')) (\<lambda>cardPan.
                if cardPan \<noteq> JStr pan then pure_step (Inr card_not_found)
                else
                  (let amountInCents = Math_round (double_times amount 100) in
                   bindE (pure_step (get_prop (r_card resources) ''token'')) (\<lambda>cardToken.
                   bindE (simulateTransaction E cardToken amountInCents None) (\<lambda>transaction.
                   bindE (pure_step (clear_condition autoClear transaction)) (\<lambda>cond.
                     if truthy cond then nfc_clear E pan transaction amountInCents
                     else pure_step
                       (Inr (200, JObj [(''success'', JBool True),
                                        (''data'', with_fields transaction
                                           [(''cardLast4'', JStr (slice_last 4 pan))])]))))))) w))"

definition nfc_pay_handler :: "env \<Rightarrow> nfc_request \<Rightarrow> world \<Rightarrow> response \<times> world" where
  "nfc_pay_handler E req w =
     (if nfc_method req \<noteq> ''POST'' then (method_not_allowed, w)
      else run_try payment_error_response (nfc_pay_try E req) w)"

subsection \<open>The QR payment endpoint\<close>

record qr_request =
  qr_method :: string
  qr_cardToken :: "string option"
  qr_amount :: "rat option"
  qr_autoClear :: "bool option"

definition qr_clear :: "env \<Rightarrow> jsval \<Rightarrow> rat \<Rightarrow> world \<Rightarrow> (thrown + response) \<times> world" where
  "qr_clear E transaction amountInCents w =
     (case clearTransaction E (opt_prop (opt_prop transaction ''transaction'') ''token'')
             amountInCents w of
        (Inr clearedTransaction, w') \<Rightarrow>
          (Inr (200, JObj [(''success'', JBool True),
                           (''data'', JObj
                              [(''transaction'', cleared_copy transaction),
                               (''gpa_order'', opt_prop transaction ''gpa_order''),
                               (''cleared'', JBool True)])]), w')
      | (Inl clearError, w') \<Rightarrow>
          (Inr (200, JObj [(''success'', JBool True),
                           (''data'', with_fields transaction
                              [(''warning'', JStr ''Transaction authorized but auto-clear failed'')])]),
           w'))"

definition qr_pay_try :: "env \<Rightarrow> qr_request \<Rightarrow> world \<Rightarrow> (thrown + response) \<times> world" where
  "qr_pay_try E req w =
     (let cardToken = str_of (qr_cardToken req);
          amount = num_of (qr_amount req);
          autoClear = (case qr_autoClear req of None \<Rightarrow> True | Some b \<Rightarrow> b)
      in if str_missing (qr_cardToken req) then
           (Inr (bad_request ''cardToken is required''), w)
         else if amount_invalid (qr_amount req) then
           (Inr (bad_request ''Valid amount is required''), w)
         else
           (let amountInCents = Math_round (double_times amount 100) in
            bindE (simulateTransaction E (JStr cardToken) amountInCents None) (\<lambda>transaction.
            bindE (pure_step (clear_condition autoClear transaction)) (\<lambda>cond.
              if truthy cond then qr_clear E transaction amountInCents
              else pure_step
                (Inr (200, JObj [(''success'', JBool True), (''data'', transaction)])))) w))"

definition qr_pay_handler :: "env \<Rightarrow> qr_request \<Rightarrow> world \<Rightarrow> response \<times> world" where
  "qr_pay_handler E req w =
     (if qr_method req \<noteq> ''POST'' then (method_not_allowed, w)
      else run_try payment_error_response (qr_pay_try E req) w)"

subsection \<open>The PIN-gated endpoints\<close>

definition DEMO_PIN :: string where
  "DEMO_PIN = ''123456''"

record pin_request =
  pin_method :: string
  pin_card :: "string option"
  pin_pin :: "string option"
  pin_amount :: "rat option"

text \<open>The variant keyed by \<^verbatim>\<open>cardToken\<close>, which authorizes and clears through
  \<^verbatim>\<open>lib/marqeta.ts\<close>. \<^verbatim>\<open>pin_card\<close> is the body's \<^verbatim>\<open>cardToken\<close>.\<close>

definition pin_token_clear ::
  "env \<Rightarrow> string \<Rightarrow> rat \<Rightarrow> jsval \<Rightarrow> rat \<Rightarrow> world \<Rightarrow> (thrown + response) \<times> world" where
  "pin_token_clear E cardToken amount transaction amountInCents w =
     (case clearTransaction E (opt_prop (opt_prop transaction ''transaction'') ''token'')
             amountInCents w of
        (Inr clearedTransaction, w') \<Rightarrow>
          (Inr (200, JObj [(''success'', JBool True),
                           (''data'', JObj
                              [(''transaction'', cleared_copy transaction),
                               (''gpa_order'', opt_prop transaction ''gpa_order''),
                               (''cleared'', JBool True),
                               (''cardLast4'', JStr (slice_last 4 cardToken)),
                               (''amount'', JNum amount)])]), w')
      | (Inl clearError, w') \<Rightarrow>
          (Inr (200, JObj [(''success'', JBool True),
                           (''data'', with_fields transaction
                              [(''warning'', JStr ''Transaction authorized but auto-clear failed'')])]),
           w'))"

definition pin_token_try :: "env \<Rightarrow> pin_request \<Rightarrow> world \<Rightarrow> (thrown + response) \<times> world" where
  "pin_token_try E req w =
     (let cardToken = str_of (pin_card req);
          amount = num_of (pin_amount req);
          amountInCents = Math_round (double_times amount 100)
      in bindE (simulateTransaction E (JStr cardToken) amountInCents None) (\<lambda>transaction.
         bindE (pure_step (clear_condition True transaction)) (\<lambda>cond.
           if truthy cond then pin_token_clear E cardToken amount transaction amountInCents
           else pure_step
             (Inr (200, JObj [(''success'', JBool True), (''data'', transaction)])))) w)"

definition pin_token_handler :: "env \<Rightarrow> pin_request \<Rightarrow> world \<Rightarrow> response \<times> world" where
  "pin_token_handler E req w =
     (if pin_method req \<noteq> ''POST'' then (method_not_allowed, w)
      else if str_missing (pin_card req) \<or> str_missing (pin_pin req) \<or> num_missing (pin_amount req)
        then (bad_request ''Missing required fields'', w)
      else if length (str_of (pin_pin req)) \<noteq> 6 then (bad_request ''Invalid PIN length'', w)
      else if str_of (pin_pin req) \<noteq> DEMO_PIN
        then ((401, JObj [(''error'', JStr ''Invalid PIN. Use demo PIN: 123456'')]), w)
      else run_try payment_error_response (pin_token_try E req) w)"





section \<open>pages/api/marqeta/setup.ts\<close>

text \<open>\<^verbatim>\<open>String(v)\<close>, as a template literal renders a value.\<close>

fun join_commas :: "string list \<Rightarrow> string" where
  "join_commas [] = []"
| "join_commas [x] = x"
| "join_commas (x # y # ys) = x @ '','' @ join_commas (y # ys)"

fun js_string :: "jsval \<Rightarrow> string" where
  "js_string JUndefined = ''undefined''"
| "js_string JNull = ''null''"
| "js_string (JBool b) = (if b then ''true'' else ''false'')"
| "js_string (JNum n) = num_toString n"
| "js_string (JStr s) = s"
| "js_string (JArr xs) = join_commas (map (\<lambda>x. if nullish x then [] else js_string x) xs)"
| "js_string (JObj fs) = ''[object Object]''"

record setup_request =
  sr_method :: string
  sr_action :: "string option"
  sr_amount :: "rat option"
  sr_webhookEndpoint :: "string option"
  sr_cardToken :: "string option"
  sr_userToken :: "string option"
  sr_transactionToken :: "string option"

definition setup_success_response :: "jsval \<Rightarrow> jsval \<Rightarrow> jsval \<Rightarrow> jsval \<Rightarrow> jsval \<Rightarrow> response" where
  "setup_success_response fundingSource cardProduct user card' velocityControl =
     (200, JObj
       [(''success'', JBool True),
        (''data'', JObj
           [(''fundingSource'', JObj
               [(''token'', opt_prop fundingSource ''token''),
                (''name'', opt_prop fundingSource ''name'')]),
            (''cardProduct'', JObj
               [(''token'', opt_prop cardProduct ''token''),
                (''name'', opt_prop cardProduct ''name'')]),
            (''user'', JObj
               [(''token'', opt_prop user ''token''),
                (''name'', JStr (js_string (opt_prop user ''first_name'') @ '' ''
                                 @ js_string (opt_prop user ''last_name''))),
                (''balanceLimit'', JNum USER_BALANCE_LIMIT)]),
            (''card'', JObj
               [(''token'', opt_prop card' ''token''),
                (''pan'', opt_prop card' ''pan''),
                (''cvv'', opt_prop card' ''cvv_number''),
                (''expiration'', opt_prop card' ''expiration''),
                (''state'', opt_prop card' ''state'')]),
            (''velocityControl'', JObj
               [(''token'', opt_prop velocityControl ''token''),
                (''amountLimit'', JNum USER_BALANCE_LIMIT),
                (''window'', opt_prop velocityControl ''velocity_window'')])]),
        (''message'', JStr ''JIT Funding setup completed successfully'')])"

definition setup_try_block ::
  "env \<Rightarrow> setup_request \<Rightarrow> world \<Rightarrow> (thrown + response) \<times> world" where
  "setup_try_block E req w =
     (if sr_action req = Some ''setup'' then
        (case setupJITFunding E w of
           (Success fundingSource cardProduct user card' velocityControl, w') \<Rightarrow>
             (Inr (setup_success_response fundingSource cardProduct user card' velocityControl), w')
         | (Failure err, w') \<Rightarrow>
             (Inr (500, JObj [(''success'', JBool False), (''error'', err)]), w'))
      else if sr_action req = Some ''simulate'' then
        (if str_missing (sr_cardToken req) then (Inr (bad_request ''cardToken is required''), w)
         else if amount_invalid (sr_amount req) then
           (Inr (bad_request ''Valid amount is required''), w)
         else
           bindE (simulateTransaction E (JStr (str_of (sr_cardToken req))) (num_of (sr_amount req))
                    (sr_webhookEndpoint req)) (\<lambda>transaction.
             pure_step (Inr (200, JObj [(''success'', JBool True),
                                         (''data'', transaction),
                                         (''message'', JStr ''Transaction simulated successfully'')]))) w)
      else if sr_action req = Some ''balance'' then
        (if str_missing (sr_userToken req) then (Inr (bad_request ''userToken is required''), w)
         else
           (case getUserBalance E (str_of (sr_userToken req)) w of
              (Inr balance, w') \<Rightarrow>
                (Inr (200, JObj [(''success'', JBool True), (''data'', balance)]), w')
            | (Inl balanceError, w') \<Rightarrow>
                (Inr (200, JObj [(''success'', JBool True),
                                 (''data'', JObj [(''gpa'', JNull)]),
                                 (''warning'', JStr ''Balance information not available'')]), w')))
      else if sr_action req = Some ''clear'' then
        (if str_missing (sr_transactionToken req) then
           (Inr (bad_request ''transactionToken is required''), w)
         else if amount_invalid (sr_amount req) then
           (Inr (bad_request ''Valid amount is required''), w)
         else
           bindE (clearTransaction E (JStr (str_of (sr_transactionToken req)))
                    (num_of (sr_amount req))) (\<lambda>clearedTransaction.
             pure_step (Inr (200, JObj [(''success'', JBool True),
                                         (''data'', clearedTransaction),
                                         (''message'', JStr ''Transaction cleared successfully'')]))) w)
      else (Inr (bad_request ''Invalid action''), w))"

text \<open>The message and details the \<^verbatim>\<open>catch\<close> extracts from what was thrown.\<close>

fun setup_error_parts :: "thrown \<Rightarrow> jsval \<times> jsval" where
  "setup_error_parts (UpstreamError status e) =
     (if truthy e then
        (case e of
           JStr m \<Rightarrow> (JStr m, JNull)
         | _ \<Rightarrow>
             if truthy (opt_prop e ''error_message'') then (opt_prop e ''error_message'', e)
             else if truthy (opt_prop e ''message'') then (opt_prop e ''message'', JNull)
             else (JStr ''Internal server error'', JNull))
      else (JStr ''Internal server error'', JNull))"
| "setup_error_parts (JsError m) =
     (JStr (if m \<noteq> [] then m else ''Internal server error''), JNull)"

definition status_context :: "nat option \<Rightarrow> jsval \<Rightarrow> jsval" where
  "status_context status errorMessage =
     (if status = Some 404 then
        JStr (''Resource not found: '' @ js_string errorMessage
              @ ''. This might be due to invalid API credentials or endpoint.'')
      else if status = Some 401 then
        JStr (''Authentication failed: '' @ js_string errorMessage
              @ ''. Please check your Marqeta API credentials.'')
      else if status = Some 403 then
        JStr (''Authorization failed: '' @ js_string errorMessage
              @ ''. You don'' @ quote @ ''t have permission to perform this action.'')
      else if status = Some 409 then
        JStr (''Conflict: '' @ js_string errorMessage
              @ ''. A resource with this token may already exist.'')
      else errorMessage)"

fun thrown_status :: "thrown \<Rightarrow> nat option" where
  "thrown_status (UpstreamError status e) = Some status"
| "thrown_status (JsError m) = None"

definition setup_error_response :: "thrown \<Rightarrow> response" where
  "setup_error_response error =
     (case setup_error_parts error of (errorMessage, errorDetails) \<Rightarrow>
        ((case thrown_status error of None \<Rightarrow> 500 | Some st \<Rightarrow> if st \<noteq> 0 then st else 500),
         JObj [(''success'', JBool False),
               (''error'', status_context (thrown_status error) errorMessage),
               (''details'', errorDetails)]))"

definition setup_handler :: "env \<Rightarrow> setup_request \<Rightarrow> world \<Rightarrow> response \<times> world" where
  "setup_handler E req w =
     (if sr_method req \<noteq> ''POST'' then (method_not_allowed, w)
      else run_try setup_error_response (setup_try_block E req) w)"

section \<open>Runs and their outbound calls\<close>

text \<open>The calls a run added to the log, and the platform's reply to each of them.\<close>

definition new_calls :: "world \<Rightarrow> world \<Rightarrow> request list" where
  "new_calls w w' = drop (length (calls w)) (calls w')"

definition replies :: "env \<Rightarrow> world \<Rightarrow> world \<Rightarrow> http_reply list" where
  "replies E w w' =
     map (\<lambda>(i, rq). upstream E (length (calls w) + i) rq) (enumerate 0 (new_calls w w'))"

fun reply_fails :: "http_reply \<Rightarrow> bool" where
  "reply_fails (FetchFailed m) = True"
| "reply_fails (HttpReply status statusText text parsed) = (\<not> response_ok status)"

text \<open>What \<^verbatim>\<open>marqetaRequest\<close> returns as \<^verbatim>\<open>response.data\<close> for a reply.\<close>

fun reply_data :: "http_reply \<Rightarrow> jsval" where
  "reply_data (FetchFailed m) = JUndefined"
| "reply_data (HttpReply status statusText text parsed) =
     (case parsed of Inl _ \<Rightarrow> JObj [] | Inr d \<Rightarrow> d)"

text \<open>A call that created an entity: a 2xx reply whose body is not \<^verbatim>\<open>null\<close>.\<close>

definition reply_created :: "http_reply \<Rightarrow> bool" where
  "reply_created r = (\<not> reply_fails r \<and> \<not> nullish (reply_data r))"

fun is_Failure :: "setup_result \<Rightarrow> bool" where
  "is_Failure (Failure e) = True"
| "is_Failure (Success a b c d e) = False"

text \<open>A field of a request body, by the path of keys that leads to it.\<close>

fun at_path :: "jsval \<Rightarrow> string list \<Rightarrow> jsval" where
  "at_path v [] = v"
| "at_path v (k # ks) = at_path (opt_prop v k) ks"

definition body_of :: "request \<Rightarrow> jsval" where
  "body_of rq = (case req_body rq of None \<Rightarrow> JUndefined | Some b \<Rightarrow> b)"

definition empty_resources :: resources where
  "empty_resources =
     \<lparr>r_fundingSource = JNull, r_cardProduct = JNull, r_user = JNull, r_card = JNull,
      r_velocityControl = JNull\<rparr>"

definition initial_world :: world where
  "initial_world = \<lparr>registry = empty_resources, calls = []\<rparr>"

text \<open>What \<^verbatim>\<open>marqetaRequest\<close> throws for a failing reply, and the TypeError of reading a
  property of \<^verbatim>\<open>null\<close>.\<close>

fun reply_error :: "http_reply \<Rightarrow> thrown" where
  "reply_error (FetchFailed m) = JsError m"
| "reply_error (HttpReply status statusText text parsed) =
     UpstreamError status
       (case parsed of Inl _ \<Rightarrow> JObj [(''message'', JStr statusText)] | Inr e \<Rightarrow> e)"

definition type_error :: "jsval \<Rightarrow> string \<Rightarrow> thrown" where
  "type_error v k = (case get_prop v k of Inl e \<Rightarrow> e | Inr _ \<Rightarrow> JsError [])"

text \<open>The funding source a run continues with, given the reply to its creation call.\<close>

definition fund_entity :: "http_reply \<Rightarrow> jsval" where
  "fund_entity r = (if reply_fails r then defaultFundingSource else reply_data r)"

definition connect_failure :: thrown where
  "connect_failure = JsError ''Failed to connect to Marqeta API. Please check your credentials.''"

text \<open>The requests of the setup orchestrator and of the transaction functions.\<close>

definition probe_request :: request where
  "probe_request = api_request ''GET'' ''/cardproducts?count=1'' JNull"

definition fund_request :: "env \<Rightarrow> nat \<Rightarrow> request" where
  "fund_request E t = api_request ''POST'' ''/fundingsources/program'' (fundingSourceData E t)"

definition product_request :: "env \<Rightarrow> nat \<Rightarrow> jsval \<Rightarrow> request" where
  "product_request E t fundingSourceToken =
     api_request ''POST'' ''/cardproducts'' (cardProductData E t fundingSourceToken)"

definition user_request :: "env \<Rightarrow> nat \<Rightarrow> request" where
  "user_request E t = api_request ''POST'' ''/users'' (userRequestData E t JUndefined)"

definition card_request :: "env \<Rightarrow> nat \<Rightarrow> jsval \<Rightarrow> jsval \<Rightarrow> request" where
  "card_request E t userToken cardProductToken =
     api_request ''POST'' ''/cards?show_pan=true&show_cvv_number=true''
       (cardData E t userToken cardProductToken)"

definition velocity_request :: "jsval \<Rightarrow> request" where
  "velocity_request userToken =
     api_request ''POST'' ''/velocitycontrols'' (velocityControlData userToken ''Daily Spend Limit'')"

definition auth_request :: "jsval \<Rightarrow> rat \<Rightarrow> string option \<Rightarrow> request" where
  "auth_request cardToken amount webhookEndpoint =
     api_request ''POST'' ''/simulations/cardtransactions/authorization''
       (transactionData cardToken amount webhookEndpoint)"

definition clearing_request :: "jsval \<Rightarrow> rat \<Rightarrow> request" where
  "clearing_request transactionToken amount =
     api_request ''POST'' ''/simulations/cardtransactions/authorization.clearing''
       (clearingData transactionToken amount)"

text \<open>A world after some more calls, with a given registry.\<close>

definition logged :: "world \<Rightarrow> request list \<Rightarrow> resources \<Rightarrow> world" where
  "logged w rqs reg = w\<lparr>calls := calls w @ rqs, registry := reg\<rparr>"

text \<open>A run in which the probe and every creation call succeeded.\<close>

definition all_created :: "http_reply list \<Rightarrow> bool" where
  "all_created rs =
     (case rs of [] \<Rightarrow> False
      | probe # rest \<Rightarrow> \<not> reply_fails probe \<and> list_all reply_created rest)"

text \<open>A run in which the funding-source call failed and every other call succeeded.\<close>

definition only_funding_failed :: "http_reply list \<Rightarrow> bool" where
  "only_funding_failed rs =
     (case rs of
        probe # fund # rest \<Rightarrow>
          \<not> reply_fails probe \<and> reply_fails fund \<and> list_all reply_created rest
      | _ \<Rightarrow> False)"

text \<open>The token of the authorized transaction in an authorization response.\<close>

definition transaction_token :: "jsval \<Rightarrow> jsval" where
  "transaction_token transaction = opt_prop (opt_prop transaction ''transaction'') ''token''"

subsection \<open>A scripted platform for concrete runs\<close>

text \<open>
  A platform that rejects the calls whose index is listed and otherwise answers an
  authorization with a pending transaction, a clearing with a completed one and a creation
  with an entity that echoes the request's token.
\<close>

definition dquote :: string where
  "dquote = [CHR 0x22]"

fun json_text :: "jsval \<Rightarrow> string" where
  "json_text JUndefined = ''null''"
| "json_text JNull = ''null''"
| "json_text (JBool b) = (if b then ''true'' else ''false'')"
| "json_text (JNum n) = num_toString n"
| "json_text (JStr s) = dquote @ s @ dquote"
| "json_text (JArr xs) = ''['' @ join_commas (map json_text xs) @ '']''"
| "json_text (JObj fs) =
     ''{'' @ join_commas (map (\<lambda>(k, v). dquote @ k @ dquote @ '':'' @ json_text v) fs) @ ''}''"

definition demo_body :: "request \<Rightarrow> jsval" where
  "demo_body rq =
     (if req_url rq = ''https://sandbox-api.marqeta.com/v3/simulations/cardtransactions/authorization''
      then JObj [(''transaction'', JObj [(''token'', JStr ''txn_auth''), (''state'', JStr ''PENDING'')]),
                 (''gpa_order'', JObj [(''token'', JStr ''gpa_1'')])]
      else if req_url rq
              = ''https://sandbox-api.marqeta.com/v3/simulations/cardtransactions/authorization.clearing''
      then JObj [(''transaction'', JObj [(''token'', JStr ''txn_clearing''),
                                         (''state'', JStr ''COMPLETION'')])]
      else JObj [(''token'', opt_prop (body_of rq) ''token''),
                 (''pan'', JStr ''5112345123451234'')])"

definition demo_env :: "nat list \<Rightarrow> env" where
  "demo_env rejected =
     \<lparr>upstream = (\<lambda>n rq.
        if n \<in> set rejected
        then HttpReply 400 ''Bad Request'' ''rejected'' (Inl ''Unexpected token r in JSON at position 0'')
        else HttpReply 200 ''OK'' (json_text (demo_body rq)) (Inr (demo_body rq))),
      date_now = (\<lambda>n. 1762083780000 + int n),
      math_random = (\<lambda>n. ''0.k3x9q0zjw''),
      time_string = (\<lambda>n. ''11:43:00 GMT+0000 (Coordinated Universal Time)''),
      iso_string = (\<lambda>n. ''2026-11-02T11:43:00.000Z'')\<rparr>"

definition demo_card :: jsval where
  "demo_card = JObj [(''token'', JStr ''card_83780004_k3x9''), (''pan'', JStr ''5112345123451234'')]"

definition demo_world :: world where
  "demo_world = \<lparr>registry = empty_resources\<lparr>r_card := demo_card\<rparr>, calls = []\<rparr>"

text \<open>Requests for ten dollars, and the two dispatcher requests of the amount example.\<close>

definition nfc_ten :: nfc_request where
  "nfc_ten = \<lparr>nfc_method = ''POST'', nfc_pan = Some ''5112345123451234'', nfc_amount = Some 10,
              nfc_autoClear = Some True\<rparr>"

definition qr_ten :: qr_request where
  "qr_ten = \<lparr>qr_method = ''POST'', qr_cardToken = Some ''card_83780004_k3x9'',
             qr_amount = Some 10, qr_autoClear = None\<rparr>"

definition pin_ten :: pin_request where
  "pin_ten = \<lparr>pin_method = ''POST'', pin_card = Some ''card_83780004_k3x9'',
              pin_pin = Some ''123456'', pin_amount = Some 10\<rparr>"

definition simulate_ten :: setup_request where
  "simulate_ten =
     \<lparr>sr_method = ''POST'', sr_action = Some ''simulate'', sr_amount = Some 10,
      sr_webhookEndpoint = None, sr_cardToken = Some ''card_001'', sr_userToken = None,
      sr_transactionToken = None\<rparr>"

definition clear_thousand :: setup_request where
  "clear_thousand =
     \<lparr>sr_method = ''POST'', sr_action = Some ''clear'', sr_amount = Some 1000,
      sr_webhookEndpoint = None, sr_cardToken = None, sr_userToken = None,
      sr_transactionToken = Some ''txn_auth''\<rparr>"

section \<open>Token generation\<close>

lemma digit_char_is_digit: "is_digit (digit_char d)"
  unfolding digit_char_def is_digit_def by (rule nth_mem) simp

lemma nat_toString_digits: "list_all is_digit (nat_toString n)"
proof (induction n rule: nat_toString.induct)
  case (1 n)
  show ?case
  proof (cases "n < 10")
    case True
    then show ?thesis by (subst nat_toString.simps) (simp add: digit_char_is_digit)
  next
    case False
    with 1 show ?thesis by (subst nat_toString.simps) (simp add: digit_char_is_digit)
  qed
qed

lemma nat_toString_length: "10 ^ k \<le> n \<Longrightarrow> k < length (nat_toString n)"
proof (induction n arbitrary: k rule: nat_toString.induct)
  case (1 n)
  show ?case
  proof (cases "n < 10")
    case True
    have "k = 0"
    proof (rule ccontr)
      assume "k \<noteq> 0"
      then have "(10::nat) ^ 1 \<le> 10 ^ k" by (intro power_increasing) auto
      with 1(2) True show False by simp
    qed
    then show ?thesis by (subst nat_toString.simps) (simp add: True)
  next
    case False
    show ?thesis
    proof (cases k)
      case 0
      then show ?thesis by (subst nat_toString.simps) simp
    next
      case (Suc j)
      with 1(2) have "10 ^ j \<le> n div 10" by (simp add: less_eq_div_iff_mult_less_eq)
      with 1(1)[OF False] have "j < length (nat_toString (n div 10))" by simp
      then show ?thesis using Suc False by (subst nat_toString.simps) simp
    qed
  qed
qed

lemma slice_last_length: "length (slice_last n s) \<le> n"
  by (simp add: slice_last_def)

lemma substring_length: "length (substring a b s) \<le> b - a"
  by (simp add: substring_def)

text \<open>
  Claim C9. For each of the prefixes the orchestrator uses, a generated token is the
  prefix, an underscore, the last characters of the clock reading, an underscore and a
  random suffix. The suffix has at most 4 characters, the clock fragment at most 8, and
  the token is shorter than 36 characters, whatever the clock and the random source
  return. Once the clock reads at least \<open>10^7\<close> milliseconds (any time later than the
  first three hours of 1970) the fragment is exactly 8 decimal digits.
\<close>

theorem generateToken_shape:
  assumes "prefix \<in> {''fund'', ''prod'', ''user'', ''card''}"
  shows "generateToken E t prefix
           = prefix @ ''_'' @ slice_last 8 (int_toString (date_now E t)) @ ''_''
               @ substring 2 6 (math_random E t)
         \<and> length (substring 2 6 (math_random E t)) \<le> 4
         \<and> length (slice_last 8 (int_toString (date_now E t))) \<le> 8
         \<and> length (generateToken E t prefix) < 36
         \<and> (10 ^ 7 \<le> date_now E t \<longrightarrow>
              length (slice_last 8 (int_toString (date_now E t))) = 8
              \<and> list_all is_digit (slice_last 8 (int_toString (date_now E t))))"
proof -
  have len: "length prefix = 4" using assms by auto
  have r: "length (substring 2 6 (math_random E t)) \<le> 4"
    using substring_length [of 2 6] by simp
  have s: "length (slice_last 8 (int_toString (date_now E t))) \<le> 8"
    by (rule slice_last_length)
  have tok: "generateToken E t prefix
           = prefix @ ''_'' @ slice_last 8 (int_toString (date_now E t)) @ ''_''
               @ substring 2 6 (math_random E t)"
    by (simp add: generateToken_def Let_def)
  have total: "length (generateToken E t prefix) < 36"
    using len r s by (simp add: tok)
  have digits: "length (slice_last 8 (int_toString (date_now E t))) = 8
      \<and> list_all is_digit (slice_last 8 (int_toString (date_now E t)))"
    if big: "10 ^ 7 \<le> date_now E t"
  proof -
    have "(0::int) < 10 ^ 7" by simp
    with big have pos: "\<not> date_now E t < 0" by linarith
    from big have "10 ^ 7 \<le> nat (date_now E t)" by (simp add: le_nat_iff)
    then have "7 < length (nat_toString (nat (date_now E t)))" by (rule nat_toString_length)
    moreover have "list_all is_digit (nat_toString (nat (date_now E t)))"
      by (rule nat_toString_digits)
    ultimately show ?thesis using pos
      by (auto simp: slice_last_def int_toString_def list_all_iff dest: in_set_dropD)
  qed
  show ?thesis using tok r s total digits by blast
qed



theorem generateToken_shape_witness:
  "''card'' \<in> {''fund'', ''prod'', ''user'', ''card''}
   \<and> 10 ^ 7 \<le> date_now (demo_env []) 4
   \<and> slice_last 8 (int_toString (date_now (demo_env []) 4)) = ''83780004''
   \<and> generateToken (demo_env []) 4 ''card'' = ''card_83780004_k3x9''
   \<and> length (generateToken (demo_env []) 4 ''card'') < 36
   \<and> list_all is_digit ''83780004''"
proof -
  have p: "''card'' \<in> {''fund'', ''prod'', ''user'', ''card''}" by simp
  have big: "10 ^ 7 \<le> date_now (demo_env []) 4" by (simp add: demo_env_def)
  have ts: "slice_last 8 (int_toString (date_now (demo_env []) 4)) = ''83780004''"
    by (simp add: demo_env_def slice_last_def int_toString_def nat_toString.simps digit_char_def)
  have rnd: "substring 2 6 (math_random (demo_env []) 4) = ''k3x9''"
    by (simp add: demo_env_def substring_def)
  from generateToken_shape [OF p, of "demo_env []" 4] big ts rnd
  show ?thesis by simp
qed

section \<open>Runs of the setup orchestrator\<close>

text \<open>
  Each function of \<^verbatim>\<open>lib/marqeta.ts\<close> makes one call; what it returns and how it leaves
  the world is determined by the platform's reply to that call. The lemmas below name the
  reply and describe the function by it; \<open>setup_try_run\<close> and \<open>setup_run\<close> then describe a
  whole run of the orchestrator by the replies to its six calls, one case for each place
  where the run can end.
\<close>

lemma get_prop_eq: "get_prop v k = (if nullish v then Inl (type_error v k) else Inr (opt_prop v k))"
  by (cases v) (simp_all add: opt_prop_def type_error_def)

lemma marqetaRequest_reply:
  assumes "upstream E (length (calls w)) (api_request method path data) = r"
  shows "marqetaRequest E method path data w =
     (if reply_fails r then Inl (reply_error r)
      else Inr (case r of HttpReply st _ _ _ \<Rightarrow> st | _ \<Rightarrow> 0, reply_data r),
      w\<lparr>calls := calls w @ [api_request method path data]\<rparr>)"
  using assms
  by (auto simp add: marqetaRequest_def fetch_def Let_def split: http_reply.splits sum.splits)

lemma testConnection_reply:
  assumes "upstream E (length (calls w)) probe_request = r"
  shows "testConnection E w = (\<not> reply_fails r, w\<lparr>calls := calls w @ [probe_request]\<rparr>)"
  using assms unfolding probe_request_def testConnection_def
  by (simp add: marqetaRequest_reply)

lemma createProgramFundingSource_reply:
  assumes "upstream E (length (calls w)) (fund_request E (length (calls w))) = r"
  shows "createProgramFundingSource E w =
     (fund_entity r, w\<lparr>calls := calls w @ [fund_request E (length (calls w))],
                       registry := (registry w)\<lparr>r_fundingSource := fund_entity r\<rparr>\<rparr>)"
  using assms unfolding fund_request_def createProgramFundingSource_def
  by (simp add: marqetaRequest_reply fund_entity_def)

lemma createCardProduct_reply:
  assumes "upstream E (length (calls w)) (product_request E (length (calls w)) tok) = r"
  shows "createCardProduct E tok w =
     (if reply_fails r then (Inl (reply_error r), w\<lparr>calls := calls w @ [product_request E (length (calls w)) tok]\<rparr>)
      else (Inr (reply_data r),
            w\<lparr>calls := calls w @ [product_request E (length (calls w)) tok],
              registry := (registry w)\<lparr>r_cardProduct := reply_data r\<rparr>\<rparr>))"
  using assms unfolding product_request_def createCardProduct_def
  by (simp add: marqetaRequest_reply)

lemma createUser_reply:
  assumes "upstream E (length (calls w)) (user_request E (length (calls w))) = r"
  shows "createUser E JUndefined w =
     (if reply_fails r then (Inl (reply_error r), w\<lparr>calls := calls w @ [user_request E (length (calls w))]\<rparr>)
      else (Inr (reply_data r),
            w\<lparr>calls := calls w @ [user_request E (length (calls w))],
              registry := (registry w)\<lparr>r_user := reply_data r\<rparr>\<rparr>))"
  using assms unfolding user_request_def createUser_def
  by (simp add: marqetaRequest_reply)

lemma createCard_reply:
  assumes "upstream E (length (calls w)) (card_request E (length (calls w)) ut cpt) = r"
  shows "createCard E ut cpt w =
     (if reply_fails r then (Inl (reply_error r), w\<lparr>calls := calls w @ [card_request E (length (calls w)) ut cpt]\<rparr>)
      else (Inr (reply_data r),
            w\<lparr>calls := calls w @ [card_request E (length (calls w)) ut cpt],
              registry := (registry w)\<lparr>r_card := reply_data r\<rparr>\<rparr>))"
  using assms unfolding card_request_def createCard_def
  by (simp add: marqetaRequest_reply)

lemma createVelocityControl_reply:
  assumes "upstream E (length (calls w)) (velocity_request ut) = r"
  shows "createVelocityControl E ut ''Daily Spend Limit'' w =
     (if reply_fails r then (Inl (reply_error r), w\<lparr>calls := calls w @ [velocity_request ut]\<rparr>)
      else (Inr (reply_data r),
            w\<lparr>calls := calls w @ [velocity_request ut],
              registry := (registry w)\<lparr>r_velocityControl := reply_data r\<rparr>\<rparr>))"
  using assms unfolding velocity_request_def createVelocityControl_def
  by (simp add: marqetaRequest_reply)


lemma calls_logged [simp]: "calls (logged w rqs reg) = calls w @ rqs"
  by (simp add: logged_def)

lemma registry_logged [simp]: "registry (logged w rqs reg) = reg"
  by (simp add: logged_def)

lemma setup_try_run:
  assumes r0: "upstream E (length (calls w)) probe_request = r0"
      and r1: "upstream E (length (calls w) + 1) (fund_request E (length (calls w) + 1)) = r1"
      and fs: "fs = fund_entity r1"
      and rq2: "rq2 = product_request E (length (calls w) + 2) (opt_prop fs ''token'')"
      and r2: "upstream E (length (calls w) + 2) rq2 = r2"
      and r3: "upstream E (length (calls w) + 3) (user_request E (length (calls w) + 3)) = r3"
      and rq4: "rq4 = card_request E (length (calls w) + 4) (opt_prop (reply_data r3) ''token'')
                        (opt_prop (reply_data r2) ''token'')"
      and r4: "upstream E (length (calls w) + 4) rq4 = r4"
      and rq5: "rq5 = velocity_request (opt_prop (reply_data r3) ''token'')"
      and r5: "upstream E (length (calls w) + 5) rq5 = r5"
      and rq1: "rq1 = fund_request E (length (calls w) + 1)"
      and rq3: "rq3 = user_request E (length (calls w) + 3)"
      and g1: "g1 = (registry w)\<lparr>r_fundingSource := fs\<rparr>"
      and g2: "g2 = g1\<lparr>r_cardProduct := reply_data r2\<rparr>"
      and g3: "g3 = g2\<lparr>r_user := reply_data r3\<rparr>"
      and g4: "g4 = g3\<lparr>r_card := reply_data r4\<rparr>"
      and g5: "g5 = g4\<lparr>r_velocityControl := reply_data r5\<rparr>"
  shows "setup_try E w =
     (if reply_fails r0 then (Inl connect_failure, logged w [probe_request] (registry w))
      else if nullish fs then
        (Inl (type_error fs ''token''), logged w [probe_request, rq1] g1)
      else if reply_fails r2 then
        (Inl (reply_error r2), logged w [probe_request, rq1, rq2] g1)
      else if nullish (reply_data r2) then
        (Inl (type_error (reply_data r2) ''token''), logged w [probe_request, rq1, rq2] g2)
      else if reply_fails r3 then
        (Inl (reply_error r3), logged w [probe_request, rq1, rq2, rq3] g2)
      else if nullish (reply_data r3) then
        (Inl (type_error (reply_data r3) ''token''), logged w [probe_request, rq1, rq2, rq3] g3)
      else if reply_fails r4 then
        (Inl (reply_error r4), logged w [probe_request, rq1, rq2, rq3, rq4] g3)
      else if nullish (reply_data r4) then
        (Inl (type_error (reply_data r4) ''token''), logged w [probe_request, rq1, rq2, rq3, rq4] g4)
      else if reply_fails r5 then
        (Inl (reply_error r5), logged w [probe_request, rq1, rq2, rq3, rq4, rq5] g4)
      else if nullish (reply_data r5) then
        (Inl (type_error (reply_data r5) ''token''),
         logged w [probe_request, rq1, rq2, rq3, rq4, rq5] g5)
      else
        (Inr (fs, reply_data r2, reply_data r3, reply_data r4, reply_data r5),
         logged w [probe_request, rq1, rq2, rq3, rq4, rq5] g5))"
proof -
  define w0 where "w0 = logged w [probe_request] (registry w)"
  define w1 where "w1 = logged w [probe_request, rq1] g1"
  define w2 where "w2 = logged w [probe_request, rq1, rq2] g2"
  define w3 where "w3 = logged w [probe_request, rq1, rq2, rq3] g3"
  define w4 where "w4 = logged w [probe_request, rq1, rq2, rq3, rq4] g4"
  have s0: "testConnection E w = (\<not> reply_fails r0, w0)"
    using testConnection_reply [OF r0] by (simp add: w0_def logged_def)
  have s1: "createProgramFundingSource E w0 = (fs, w1)"
    using createProgramFundingSource_reply [of E w0 r1] r1
    by (simp add: w0_def w1_def fs rq1 g1 logged_def eval_nat_numeral)
  have s2: "createCardProduct E (opt_prop fs ''token'') w1 =
      (if reply_fails r2 then (Inl (reply_error r2), logged w [probe_request, rq1, rq2] g1)
       else (Inr (reply_data r2), w2))"
    using createCardProduct_reply [of E w1 "opt_prop fs ''token''" r2] r2
    by (simp add: w1_def w2_def rq2 g2 logged_def eval_nat_numeral cong: if_cong)
  have s3: "createUser E JUndefined w2 =
      (if reply_fails r3 then (Inl (reply_error r3), logged w [probe_request, rq1, rq2, rq3] g2)
       else (Inr (reply_data r3), w3))"
    using createUser_reply [of E w2 r3] r3
    by (simp add: w2_def w3_def rq3 g3 logged_def eval_nat_numeral cong: if_cong)
  have s4: "createCard E (opt_prop (reply_data r3) ''token'') (opt_prop (reply_data r2) ''token'') w3 =
      (if reply_fails r4 then (Inl (reply_error r4), logged w [probe_request, rq1, rq2, rq3, rq4] g3)
       else (Inr (reply_data r4), w4))"
    using createCard_reply [of E w3 "opt_prop (reply_data r3) ''token''"
        "opt_prop (reply_data r2) ''token''" r4] r4
    by (simp add: w3_def w4_def rq4 g4 logged_def eval_nat_numeral cong: if_cong)
  have s5: "createVelocityControl E (opt_prop (reply_data r3) ''token'') ''Daily Spend Limit'' w4 =
      (if reply_fails r5 then
         (Inl (reply_error r5), logged w [probe_request, rq1, rq2, rq3, rq4, rq5] g4)
       else (Inr (reply_data r5), logged w [probe_request, rq1, rq2, rq3, rq4, rq5] g5))"
    using createVelocityControl_reply [of E w4 "opt_prop (reply_data r3) ''token''" r5] r5
    by (simp add: w4_def rq5 g5 logged_def eval_nat_numeral cong: if_cong)
  show ?thesis
    unfolding setup_try_def
    by (simp add: s0 s1 s2 s3 s4 s5 bindE_def pure_step_def get_prop_eq connect_failure_def
        w0_def [symmetric] w1_def [symmetric] w2_def [symmetric] w3_def [symmetric]
        w4_def [symmetric])
qed


lemma replies_logged:
  "replies E w (logged w rqs g) =
     map (\<lambda>(i, rq). upstream E (length (calls w) + i) rq) (enumerate 0 rqs)"
  by (simp add: replies_def new_calls_def)

lemma new_calls_logged: "new_calls w (logged w rqs g) = rqs"
  by (simp add: new_calls_def)

lemma setup_run:
  assumes run: "setupJITFunding E w = (result, w')"
      and r0: "upstream E (length (calls w)) probe_request = r0"
      and r1: "upstream E (length (calls w) + 1) (fund_request E (length (calls w) + 1)) = r1"
      and fs: "fs = fund_entity r1"
      and rq2: "rq2 = product_request E (length (calls w) + 2) (opt_prop fs ''token'')"
      and r2: "upstream E (length (calls w) + 2) rq2 = r2"
      and r3: "upstream E (length (calls w) + 3) (user_request E (length (calls w) + 3)) = r3"
      and rq4: "rq4 = card_request E (length (calls w) + 4) (opt_prop (reply_data r3) ''token'')
                        (opt_prop (reply_data r2) ''token'')"
      and r4: "upstream E (length (calls w) + 4) rq4 = r4"
      and rq5: "rq5 = velocity_request (opt_prop (reply_data r3) ''token'')"
      and r5: "upstream E (length (calls w) + 5) rq5 = r5"
      and rq1: "rq1 = fund_request E (length (calls w) + 1)"
      and rq3: "rq3 = user_request E (length (calls w) + 3)"
      and g1: "g1 = (registry w)\<lparr>r_fundingSource := fs\<rparr>"
      and g2: "g2 = g1\<lparr>r_cardProduct := reply_data r2\<rparr>"
      and g3: "g3 = g2\<lparr>r_user := reply_data r3\<rparr>"
      and g4: "g4 = g3\<lparr>r_card := reply_data r4\<rparr>"
      and g5: "g5 = g4\<lparr>r_velocityControl := reply_data r5\<rparr>"
  shows "if reply_fails r0 then
           result = Failure (error_or_message connect_failure) \<and> registry w' = registry w
           \<and> new_calls w w' = [probe_request] \<and> replies E w w' = [r0]
         else if nullish fs then
           is_Failure result \<and> registry w' = g1
           \<and> new_calls w w' = [probe_request, rq1] \<and> replies E w w' = [r0, r1]
         else if reply_fails r2 then
           result = Failure (error_or_message (reply_error r2)) \<and> registry w' = g1
           \<and> new_calls w w' = [probe_request, rq1, rq2] \<and> replies E w w' = [r0, r1, r2]
         else if nullish (reply_data r2) then
           is_Failure result \<and> registry w' = g2
           \<and> new_calls w w' = [probe_request, rq1, rq2] \<and> replies E w w' = [r0, r1, r2]
         else if reply_fails r3 then
           result = Failure (error_or_message (reply_error r3)) \<and> registry w' = g2
           \<and> new_calls w w' = [probe_request, rq1, rq2, rq3]
           \<and> replies E w w' = [r0, r1, r2, r3]
         else if nullish (reply_data r3) then
           is_Failure result \<and> registry w' = g3
           \<and> new_calls w w' = [probe_request, rq1, rq2, rq3]
           \<and> replies E w w' = [r0, r1, r2, r3]
         else if reply_fails r4 then
           result = Failure (error_or_message (reply_error r4)) \<and> registry w' = g3
           \<and> new_calls w w' = [probe_request, rq1, rq2, rq3, rq4]
           \<and> replies E w w' = [r0, r1, r2, r3, r4]
         else if nullish (reply_data r4) then
           is_Failure result \<and> registry w' = g4
           \<and> new_calls w w' = [probe_request, rq1, rq2, rq3, rq4]
           \<and> replies E w w' = [r0, r1, r2, r3, r4]
         else if reply_fails r5 then
           result = Failure (error_or_message (reply_error r5)) \<and> registry w' = g4
           \<and> new_calls w w' = [probe_request, rq1, rq2, rq3, rq4, rq5]
           \<and> replies E w w' = [r0, r1, r2, r3, r4, r5]
         else if nullish (reply_data r5) then
           is_Failure result \<and> registry w' = g5
           \<and> new_calls w w' = [probe_request, rq1, rq2, rq3, rq4, rq5]
           \<and> replies E w w' = [r0, r1, r2, r3, r4, r5]
         else
           result = Success fs (reply_data r2) (reply_data r3) (reply_data r4) (reply_data r5)
           \<and> registry w' = g5
           \<and> new_calls w w' = [probe_request, rq1, rq2, rq3, rq4, rq5]
           \<and> replies E w w' = [r0, r1, r2, r3, r4, r5]"
proof -
  note eq = setup_try_run [OF r0 r1 fs rq2 r2 r3 rq4 r4 rq5 r5 rq1 rq3 g1 g2 g3 g4 g5]
  have p1: "replies E w (logged w [probe_request] g) = [r0]" for g
    using r0 by (simp add: replies_logged)
  have p2: "replies E w (logged w [probe_request, rq1] g) = [r0, r1]" for g
    using r0 r1 rq1 by (simp add: replies_logged eval_nat_numeral)
  have p3: "replies E w (logged w [probe_request, rq1, rq2] g) = [r0, r1, r2]" for g
    using r0 r1 rq1 r2 by (simp add: replies_logged eval_nat_numeral)
  have p4: "replies E w (logged w [probe_request, rq1, rq2, rq3] g) = [r0, r1, r2, r3]" for g
    using r0 r1 rq1 r2 r3 rq3 by (simp add: replies_logged eval_nat_numeral)
  have p5: "replies E w (logged w [probe_request, rq1, rq2, rq3, rq4] g) = [r0, r1, r2, r3, r4]" for g
    using r0 r1 rq1 r2 r3 rq3 r4 by (simp add: replies_logged eval_nat_numeral)
  have p6: "replies E w (logged w [probe_request, rq1, rq2, rq3, rq4, rq5] g) = [r0, r1, r2, r3, r4, r5]" for g
    using r0 r1 rq1 r2 r3 rq3 r4 r5 by (simp add: replies_logged eval_nat_numeral)
  from run show ?thesis
    unfolding setupJITFunding_def eq
    by (auto simp add: new_calls_logged p1 p2 p3 p4 p5 p6 type_error_def
        split: if_splits)
qed

lemma probe_failure_run:
  assumes "reply_fails (upstream E (length (calls w)) probe_request)"
  shows "setupJITFunding E w =
           (Failure (JStr ''Failed to connect to Marqeta API. Please check your credentials.''),
            w\<lparr>calls := calls w @ [probe_request]\<rparr>)"
  using assms testConnection_reply [OF refl, of E w]
  by (simp add: setupJITFunding_def setup_try_def)

lemma demo_accepts:
  "n \<notin> set rejected \<Longrightarrow>
     upstream (demo_env rejected) n rq = HttpReply 200 ''OK'' (json_text (demo_body rq)) (Inr (demo_body rq))"
  by (simp add: demo_env_def)

lemma demo_rejects:
  "n \<in> set rejected \<Longrightarrow>
     upstream (demo_env rejected) n rq
       = HttpReply 400 ''Bad Request'' ''rejected'' (Inl ''Unexpected token r in JSON at position 0'')"
  by (simp add: demo_env_def)

lemma demo_body_object: "\<not> nullish (demo_body rq)"
  by (simp add: demo_body_def)

lemmas demo_run = setup_run [OF prod.collapse [symmetric] refl refl refl refl refl refl refl refl
    refl refl refl refl refl refl refl refl refl, where w = initial_world]

lemma initial_calls: "calls initial_world = []"
  by (simp add: initial_world_def)

lemma default_object: "\<not> nullish defaultFundingSource"
  by (simp add: defaultFundingSource_def)

lemma product_body_chain:
  "at_path (body_of (product_request E t tok))
     [''config'', ''jit_funding'', ''program_funding_source'', ''funding_source_token''] = tok"
  by (simp add: product_request_def api_request_def cardProductData_def body_of_def opt_prop_def
      Let_def)

lemma card_body_chain:
  "at_path (body_of (card_request E t ut cpt)) [''user_token''] = ut"
  "at_path (body_of (card_request E t ut cpt)) [''card_product_token''] = cpt"
  by (simp_all add: card_request_def api_request_def cardData_def body_of_def opt_prop_def Let_def)

lemma velocity_body_chain:
  "at_path (body_of (velocity_request ut)) [''association'', ''user_token''] = ut"
  by (simp add: velocity_request_def api_request_def velocityControlData_def body_of_def
      opt_prop_def)

lemma request_urls:
  "req_url (product_request E t tok) = ''https://sandbox-api.marqeta.com/v3/cardproducts''"
  "req_url (card_request E t ut cpt)
     = ''https://sandbox-api.marqeta.com/v3/cards?show_pan=true&show_cvv_number=true''"
  "req_url (velocity_request ut) = ''https://sandbox-api.marqeta.com/v3/velocitycontrols''"
  by (simp_all add: product_request_def card_request_def velocity_request_def api_request_def
      MARQETA_API_BASE_def)

lemma demo_run_all_ok:
  "all_created (replies (demo_env []) initial_world (snd (setupJITFunding (demo_env []) initial_world)))
   \<and> length (new_calls initial_world (snd (setupJITFunding (demo_env []) initial_world))) = 6"
  using demo_run [of "demo_env []"]
  by (simp add: initial_calls demo_accepts demo_body_object response_ok_def fund_entity_def
      all_created_def reply_created_def)

lemma demo_product_rejected:
  "replies (demo_env [2]) initial_world (snd (setupJITFunding (demo_env [2]) initial_world))
     = [upstream (demo_env [2]) 0 probe_request,
        upstream (demo_env [2]) 1 (fund_request (demo_env [2]) 1),
        HttpReply 400 ''Bad Request'' ''rejected'' (Inl ''Unexpected token r in JSON at position 0'')]
   \<and> is_Failure (fst (setupJITFunding (demo_env [2]) initial_world))
   \<and> r_fundingSource (registry (snd (setupJITFunding (demo_env [2]) initial_world)))
       = demo_body (fund_request (demo_env [2]) 1)"
  using demo_run [of "demo_env [2]"]
  by (simp add: initial_calls demo_accepts demo_rejects demo_body_object response_ok_def
      fund_entity_def)

lemma demo_funding_rejected:
  "only_funding_failed (replies (demo_env [1]) initial_world
      (snd (setupJITFunding (demo_env [1]) initial_world)))"
  using demo_run [of "demo_env [1]"]
  by (simp add: initial_calls demo_accepts demo_rejects demo_body_object response_ok_def
      fund_entity_def default_object only_funding_failed_def reply_created_def)

lemma demo_user_rejected:
  "replies (demo_env [3]) initial_world (snd (setupJITFunding (demo_env [3]) initial_world)) ! 3
     = HttpReply 400 ''Bad Request'' ''rejected'' (Inl ''Unexpected token r in JSON at position 0'')
   \<and> length (replies (demo_env [3]) initial_world
               (snd (setupJITFunding (demo_env [3]) initial_world))) = 4"
  using demo_run [of "demo_env [3]"]
  by (simp add: initial_calls demo_accepts demo_rejects demo_body_object response_ok_def
      fund_entity_def)

section \<open>Properties of the setup orchestrator\<close>

text \<open>
  Claim C1. In every setup run in which the probe and all creation calls succeed (2xx
  replies, none with a \<^verbatim>\<open>null\<close> body), \<^verbatim>\<open>setupJITFunding\<close> returns \<^verbatim>\<open>Success\<close> with the
  entities the platform returned, after six calls, and the requests are chained: the
  card-product request carries the token of the returned funding source as
  \<^verbatim>\<open>config.jit_funding.program_funding_source.funding_source_token\<close>, the card request
  carries the returned user's token as \<^verbatim>\<open>user_token\<close> and the returned card
  product's token as \<^verbatim>\<open>card_product_token\<close>, and the velocity-control request carries
  the user's token as \<^verbatim>\<open>association.user_token\<close>.
\<close>

theorem setup_referential_chain:
  assumes run: "setupJITFunding E w = (result, w')"
      and ok: "all_created (replies E w w')"
  shows "\<exists>fundingSource cardProduct user card' velocityControl.
           result = Success fundingSource cardProduct user card' velocityControl
         \<and> length (new_calls w w') = 6
         \<and> fundingSource = reply_data (replies E w w' ! 1)
         \<and> cardProduct = reply_data (replies E w w' ! 2)
         \<and> user = reply_data (replies E w w' ! 3)
         \<and> req_url (new_calls w w' ! 2) = ''https://sandbox-api.marqeta.com/v3/cardproducts''
         \<and> at_path (body_of (new_calls w w' ! 2))
              [''config'', ''jit_funding'', ''program_funding_source'', ''funding_source_token'']
             = opt_prop fundingSource ''token''
         \<and> req_url (new_calls w w' ! 4)
             = ''https://sandbox-api.marqeta.com/v3/cards?show_pan=true&show_cvv_number=true''
         \<and> at_path (body_of (new_calls w w' ! 4)) [''user_token''] = opt_prop user ''token''
         \<and> at_path (body_of (new_calls w w' ! 4)) [''card_product_token'']
             = opt_prop cardProduct ''token''
         \<and> req_url (new_calls w w' ! 5) = ''https://sandbox-api.marqeta.com/v3/velocitycontrols''
         \<and> at_path (body_of (new_calls w w' ! 5)) [''association'', ''user_token'']
             = opt_prop user ''token''"
proof -
  note R = setup_run [OF run refl refl refl refl refl refl refl refl refl refl refl refl refl refl
      refl refl refl]
  from R ok show ?thesis
    by (simp add: all_created_def reply_created_def fund_entity_def product_body_chain
        card_body_chain velocity_body_chain request_urls del: at_path.simps split: if_splits)
qed

theorem setup_referential_chain_witness:
  "all_created (replies (demo_env []) initial_world (snd (setupJITFunding (demo_env []) initial_world)))
   \<and> is_Failure (fst (setupJITFunding (demo_env []) initial_world)) = False
   \<and> at_path (body_of (new_calls initial_world (snd (setupJITFunding (demo_env []) initial_world)) ! 5))
        [''association'', ''user_token'']
      = opt_prop (reply_data (replies (demo_env []) initial_world
                    (snd (setupJITFunding (demo_env []) initial_world)) ! 3)) ''token''"
proof -
  have h: "all_created (replies (demo_env []) initial_world
             (snd (setupJITFunding (demo_env []) initial_world)))"
    using demo_run_all_ok by simp
  from setup_referential_chain [OF prod.collapse [symmetric] h] h
  show ?thesis by (auto simp del: at_path.simps)
qed

text \<open>
  Claim C2, as the code has it. Each creation function stores its entity in the registry
  as soon as its call returns, so a run that fails later leaves the earlier entities there.
  When the last call of a run is the card-product, user, card or velocity-control call and
  it fails, the setup returns \<^verbatim>\<open>Failure\<close>; the funding-source slot holds this run's
  funding source (the created one, or the sandbox default), the slots of the steps that
  completed before the failing one hold this run's entities, and the slot of the failing
  step and of every later step is as it was before the call.
\<close>

theorem setup_failure_registry:
  assumes run: "setupJITFunding E w = (result, w')"
      and len: "3 \<le> length (replies E w w')"
      and failed: "reply_fails (last (replies E w w'))"
  shows "is_Failure result
       \<and> r_fundingSource (registry w') = fund_entity (replies E w w' ! 1)
       \<and> r_cardProduct (registry w')
           = (if 3 < length (replies E w w') then reply_data (replies E w w' ! 2)
              else r_cardProduct (registry w))
       \<and> r_user (registry w')
           = (if 4 < length (replies E w w') then reply_data (replies E w w' ! 3)
              else r_user (registry w))
       \<and> r_card (registry w')
           = (if 5 < length (replies E w w') then reply_data (replies E w w' ! 4)
              else r_card (registry w))
       \<and> r_velocityControl (registry w') = r_velocityControl (registry w)"
proof -
  note R = setup_run [OF run refl refl refl refl refl refl refl refl refl refl refl refl refl refl
      refl refl refl]
  from R len failed show ?thesis
    by (simp split: if_splits)
qed

theorem setup_failure_registry_witness:
  "3 \<le> length (replies (demo_env [2]) initial_world
                (snd (setupJITFunding (demo_env [2]) initial_world)))
   \<and> reply_fails (last (replies (demo_env [2]) initial_world
                   (snd (setupJITFunding (demo_env [2]) initial_world))))
   \<and> is_Failure (fst (setupJITFunding (demo_env [2]) initial_world))
   \<and> r_cardProduct (registry (snd (setupJITFunding (demo_env [2]) initial_world))) = JNull"
proof -
  have len: "3 \<le> length (replies (demo_env [2]) initial_world
                (snd (setupJITFunding (demo_env [2]) initial_world)))"
    using demo_product_rejected by simp
  have failed: "reply_fails (last (replies (demo_env [2]) initial_world
                   (snd (setupJITFunding (demo_env [2]) initial_world))))"
    using demo_product_rejected by (simp add: response_ok_def)
  have three: "length (replies (demo_env [2]) initial_world
                (snd (setupJITFunding (demo_env [2]) initial_world))) = 3"
    using demo_product_rejected by simp
  from setup_failure_registry [OF prod.collapse [symmetric] len failed] len failed three
  show ?thesis by (simp add: initial_world_def empty_resources_def)
qed

text \<open>
  The registry is not left unchanged: when the card-product call is rejected in a run
  from the empty registry, the run fails and the funding source it created is in the
  registry.
\<close>

theorem setup_failure_registry_counterexample:
  "reply_fails (last (replies (demo_env [2]) initial_world
                   (snd (setupJITFunding (demo_env [2]) initial_world))))
   \<and> length (replies (demo_env [2]) initial_world
                (snd (setupJITFunding (demo_env [2]) initial_world))) = 3
   \<and> is_Failure (fst (setupJITFunding (demo_env [2]) initial_world))
   \<and> registry (snd (setupJITFunding (demo_env [2]) initial_world)) \<noteq> registry initial_world"
proof -
  have "r_fundingSource (registry (snd (setupJITFunding (demo_env [2]) initial_world)))
          \<noteq> r_fundingSource (registry initial_world)"
    using demo_product_rejected demo_body_object [of "fund_request (demo_env [2]) 1"]
    by (auto simp add: initial_world_def empty_resources_def)
  then have "registry (snd (setupJITFunding (demo_env [2]) initial_world)) \<noteq> registry initial_world"
    by auto
  then show ?thesis using demo_product_rejected by (simp add: response_ok_def)
qed

text \<open>
  Claim C4. In a run whose funding-source call fails (transport error or non-2xx status)
  while the probe and every later call succeed with a body that is not \<^verbatim>\<open>null\<close>, the
  setup returns \<^verbatim>\<open>Success\<close> and the funding source it returns is the sandbox default,
  whose token is \<^verbatim>\<open>sandbox_program_funding\<close>. It is the only call whose failure is
  survived: a run in which any other call fails returns \<^verbatim>\<open>Failure\<close>.
\<close>

theorem funding_source_fallback:
  assumes run: "setupJITFunding E w = (result, w')"
  shows "(only_funding_failed (replies E w w') \<longrightarrow>
            (\<exists>cardProduct user card' velocityControl.
                result = Success defaultFundingSource cardProduct user card' velocityControl)
            \<and> get_prop defaultFundingSource ''token'' = Inr (JStr ''sandbox_program_funding''))
       \<and> ((\<exists>i < length (replies E w w'). i \<noteq> 1 \<and> reply_fails (replies E w w' ! i)) \<longrightarrow>
            is_Failure result)"
proof -
  note R = setup_run [OF run refl refl refl refl refl refl refl refl refl refl refl refl refl refl
      refl refl refl]
  have a: "only_funding_failed (replies E w w') \<longrightarrow>
            (\<exists>cardProduct user card' velocityControl.
                result = Success defaultFundingSource cardProduct user card' velocityControl)"
    using R
    by (simp add: only_funding_failed_def reply_created_def fund_entity_def default_object
        split: if_splits)
  have b: "get_prop defaultFundingSource ''token'' = Inr (JStr ''sandbox_program_funding'')"
    by (simp add: defaultFundingSource_def)
  have c: "(\<exists>i < length (replies E w w'). i \<noteq> 1 \<and> reply_fails (replies E w w' ! i)) \<longrightarrow>
            is_Failure result"
    using R
    by (auto simp add: less_Suc_eq nth_Cons' eval_nat_numeral split: if_splits)
  from a b c show ?thesis by blast
qed

theorem funding_source_fallback_witness:
  "only_funding_failed (replies (demo_env [1]) initial_world
      (snd (setupJITFunding (demo_env [1]) initial_world)))
   \<and> (\<exists>cardProduct user card' velocityControl.
         fst (setupJITFunding (demo_env [1]) initial_world)
           = Success defaultFundingSource cardProduct user card' velocityControl)
   \<and> (\<exists>i < length (replies (demo_env [3]) initial_world
                      (snd (setupJITFunding (demo_env [3]) initial_world))).
          i \<noteq> 1 \<and> reply_fails (replies (demo_env [3]) initial_world
                                  (snd (setupJITFunding (demo_env [3]) initial_world)) ! i))
   \<and> is_Failure (fst (setupJITFunding (demo_env [3]) initial_world))"
proof -
  have h1: "only_funding_failed (replies (demo_env [1]) initial_world
      (snd (setupJITFunding (demo_env [1]) initial_world)))"
    by (rule demo_funding_rejected)
  have "(3::nat) < length (replies (demo_env [3]) initial_world
                      (snd (setupJITFunding (demo_env [3]) initial_world)))
        \<and> (3::nat) \<noteq> 1
        \<and> reply_fails (replies (demo_env [3]) initial_world
                                  (snd (setupJITFunding (demo_env [3]) initial_world)) ! 3)"
    using demo_user_rejected by (simp add: response_ok_def)
  then have h3: "\<exists>i < length (replies (demo_env [3]) initial_world
                      (snd (setupJITFunding (demo_env [3]) initial_world))).
          i \<noteq> 1 \<and> reply_fails (replies (demo_env [3]) initial_world
                                  (snd (setupJITFunding (demo_env [3]) initial_world)) ! i)"
    by blast
  from funding_source_fallback [OF prod.collapse [symmetric], of "demo_env [1]" initial_world] h1
  have s1: "\<exists>cardProduct user card' velocityControl.
         fst (setupJITFunding (demo_env [1]) initial_world)
           = Success defaultFundingSource cardProduct user card' velocityControl"
    by blast
  from funding_source_fallback [OF prod.collapse [symmetric], of "demo_env [3]" initial_world] h3
  have s3: "is_Failure (fst (setupJITFunding (demo_env [3]) initial_world))"
    by blast
  from h1 s1 h3 s3 show ?thesis by blast
qed

text \<open>
  Claim C6, as the code has it. When the connectivity probe (the \<^verbatim>\<open>GET\<close> on
  \<^verbatim>\<open>/cardproducts?count=1\<close>) fails, by a transport error or a non-2xx status, the
  setup returns \<^verbatim>\<open>Failure\<close> with the message of the error it throws,
  \<^verbatim>\<open>Failed to connect to Marqeta API. Please check your credentials.\<close>; the probe is
  the only call the run makes (no retry, no creation call) and the registry is as it was.
\<close>

theorem probe_failure_aborts:
  assumes "reply_fails (upstream E (length (calls w)) probe_request)"
  shows "fst (setupJITFunding E w)
           = Failure (JStr ''Failed to connect to Marqeta API. Please check your credentials.'')
         \<and> new_calls w (snd (setupJITFunding E w)) = [probe_request]
         \<and> registry (snd (setupJITFunding E w)) = registry w"
  by (simp add: probe_failure_run [OF assms] new_calls_def)

theorem probe_failure_aborts_witness:
  "reply_fails (upstream (demo_env [0]) (length (calls initial_world)) probe_request)
   \<and> new_calls initial_world (snd (setupJITFunding (demo_env [0]) initial_world)) = [probe_request]
   \<and> registry (snd (setupJITFunding (demo_env [0]) initial_world)) = empty_resources"
proof -
  have h: "reply_fails (upstream (demo_env [0]) (length (calls initial_world)) probe_request)"
    by (simp add: demo_env_def response_ok_def initial_world_def)
  from probe_failure_aborts [OF h] h show ?thesis by (simp add: initial_world_def)
qed

text \<open>
  The reason the claim quotes, \<^verbatim>\<open>cannot reach upstream platform\<close>, is not what the code
  returns: on a platform that rejects the probe the reason is another string.
\<close>

theorem probe_failure_reason_counterexample:
  "reply_fails (upstream (demo_env [0]) (length (calls initial_world)) probe_request)
   \<and> fst (setupJITFunding (demo_env [0]) initial_world)
       \<noteq> Failure (JStr ''cannot reach upstream platform'')"
proof -
  have h: "reply_fails (upstream (demo_env [0]) (length (calls initial_world)) probe_request)"
    by (simp add: demo_env_def response_ok_def initial_world_def)
  show ?thesis using h by (simp add: probe_failure_run [OF h])
qed

section \<open>Runs of the payment endpoints\<close>

text \<open>
  The same description for the endpoints that authorize and clear: the answer and the
  final world by the replies to the authorization call and to the clearing call.
\<close>

lemma simulateTransaction_reply:
  assumes "upstream E (length (calls w)) (auth_request tok amt wh) = r"
  shows "simulateTransaction E tok amt wh w =
     (if reply_fails r then Inl (reply_error r) else Inr (reply_data r),
      w\<lparr>calls := calls w @ [auth_request tok amt wh]\<rparr>)"
  using assms unfolding auth_request_def simulateTransaction_def
  by (simp add: marqetaRequest_reply)

lemma clearTransaction_reply:
  assumes "upstream E (length (calls w)) (clearing_request tok amt) = r"
  shows "clearTransaction E tok amt w =
     (if reply_fails r then Inl (reply_error r) else Inr (reply_data r),
      w\<lparr>calls := calls w @ [clearing_request tok amt]\<rparr>)"
  using assms unfolding clearing_request_def clearTransaction_def
  by (simp add: marqetaRequest_reply)

lemma truthy_not_nullish: "truthy v \<Longrightarrow> \<not> nullish v"
  by (cases v) simp_all

lemma falsy_prop: "\<not> truthy v \<Longrightarrow> opt_prop v k = JUndefined"
  by (cases v) (simp_all add: opt_prop_def)

lemma clear_condition_eq:
  "clear_condition autoClear transaction =
     (if \<not> autoClear then Inr (JBool False)
      else if nullish transaction then Inl (type_error transaction ''transaction'')
      else Inr (transaction_token transaction))"
  by (simp add: clear_condition_def get_prop_eq transaction_token_def)

lemma nfc_pay_run:
  assumes pan: "pan = str_of (nfc_pan req)"
      and cents: "cents = Math_round (double_times (num_of (nfc_amount req)) 100)"
      and ac: "autoClear = (nfc_autoClear req \<noteq> Some False)"
      and held: "held = r_card (registry w)"
      and rqA: "rqA = auth_request (opt_prop held ''token'') cents None"
      and rA: "upstream E (length (calls w)) rqA = rA"
      and rqC: "rqC = clearing_request (transaction_token (reply_data rA)) cents"
      and rC: "upstream E (length (calls w) + 1) rqC = rC"
  shows "nfc_pay_handler E req w =
     (if nfc_method req \<noteq> ''POST'' then (method_not_allowed, w)
      else if str_missing (nfc_pan req) then (bad_request ''PAN (card number) is required'', w)
      else if \<not> panRegex_test pan then
        (bad_request ''Invalid PAN format. Must be 13-19 digits'', w)
      else if amount_invalid (nfc_amount req) then (bad_request ''Valid amount is required'', w)
      else if opt_prop held ''pan'' \<noteq> JStr pan then (card_not_found, w)
      else if reply_fails rA then
        (payment_error_response (reply_error rA), logged w [rqA] (registry w))
      else if autoClear \<and> nullish (reply_data rA) then
        (payment_error_response (type_error (reply_data rA) ''transaction''),
         logged w [rqA] (registry w))
      else if autoClear \<and> truthy (transaction_token (reply_data rA)) then
        (if reply_fails rC then
           ((200, JObj [(''success'', JBool True),
                        (''data'', with_fields (reply_data rA)
                           [(''warning'', JStr ''Transaction authorized but auto-clear failed''),
                            (''cardLast4'', JStr (slice_last 4 pan))])]),
            logged w [rqA, rqC] (registry w))
         else
           ((200, JObj [(''success'', JBool True),
                        (''data'', JObj
                           [(''transaction'', cleared_copy (reply_data rA)),
                            (''gpa_order'', opt_prop (reply_data rA) ''gpa_order''),
                            (''cleared'', JBool True),
                            (''cardLast4'', JStr (slice_last 4 pan))])]),
            logged w [rqA, rqC] (registry w)))
      else
        ((200, JObj [(''success'', JBool True),
                     (''data'', with_fields (reply_data rA)
                        [(''cardLast4'', JStr (slice_last 4 pan))])]),
         logged w [rqA] (registry w)))"
proof -
  define w1 where "w1 = logged w [rqA] (registry w)"
  have s1: "simulateTransaction E (opt_prop held ''token'') cents None w =
      (if reply_fails rA then Inl (reply_error rA) else Inr (reply_data rA), w1)"
    using simulateTransaction_reply [of E w "opt_prop held ''token''" cents None rA] rA
    by (simp add: rqA w1_def logged_def)
  have s2: "clearTransaction E (transaction_token (reply_data rA)) cents w1 =
      (if reply_fails rC then Inl (reply_error rC) else Inr (reply_data rC),
       logged w [rqA, rqC] (registry w))"
    using clearTransaction_reply [of E w1 "transaction_token (reply_data rA)" cents rC] rC
    by (simp add: rqC w1_def logged_def)
  have ac': "(case nfc_autoClear req of None \<Rightarrow> True | Some b \<Rightarrow> b) = autoClear"
    by (simp add: ac split: option.splits)
  show ?thesis
  proof (cases "truthy held")
    case False
    then show ?thesis
      by (simp add: nfc_pay_handler_def run_try_def nfc_pay_try_def Let_def getResources_def
          held [symmetric] pan [symmetric] falsy_prop)
  next
    case True
    then have nn: "\<not> nullish held" by (rule truthy_not_nullish)
    show ?thesis
      by (simp add: nfc_pay_handler_def run_try_def nfc_pay_try_def Let_def getResources_def
          held [symmetric] pan [symmetric] cents [symmetric] ac' True nn get_prop_eq bindE_def
          pure_step_def s1 s2 clear_condition_eq nfc_clear_def
          transaction_token_def [symmetric] w1_def [symmetric])
  qed
qed

lemma qr_pay_run:
  assumes cents: "cents = Math_round (double_times (num_of (qr_amount req)) 100)"
      and ac: "autoClear = (qr_autoClear req \<noteq> Some False)"
      and rqA: "rqA = auth_request (JStr (str_of (qr_cardToken req))) cents None"
      and rA: "upstream E (length (calls w)) rqA = rA"
      and rqC: "rqC = clearing_request (transaction_token (reply_data rA)) cents"
      and rC: "upstream E (length (calls w) + 1) rqC = rC"
  shows "qr_pay_handler E req w =
     (if qr_method req \<noteq> ''POST'' then (method_not_allowed, w)
      else if str_missing (qr_cardToken req) then (bad_request ''cardToken is required'', w)
      else if amount_invalid (qr_amount req) then (bad_request ''Valid amount is required'', w)
      else if reply_fails rA then
        (payment_error_response (reply_error rA), logged w [rqA] (registry w))
      else if autoClear \<and> nullish (reply_data rA) then
        (payment_error_response (type_error (reply_data rA) ''transaction''),
         logged w [rqA] (registry w))
      else if autoClear \<and> truthy (transaction_token (reply_data rA)) then
        (if reply_fails rC then
           ((200, JObj [(''success'', JBool True),
                        (''data'', with_fields (reply_data rA)
                           [(''warning'', JStr ''Transaction authorized but auto-clear failed'')])]),
            logged w [rqA, rqC] (registry w))
         else
           ((200, JObj [(''success'', JBool True),
                        (''data'', JObj
                           [(''transaction'', cleared_copy (reply_data rA)),
                            (''gpa_order'', opt_prop (reply_data rA) ''gpa_order''),
                            (''cleared'', JBool True)])]),
            logged w [rqA, rqC] (registry w)))
      else
        ((200, JObj [(''success'', JBool True), (''data'', reply_data rA)]),
         logged w [rqA] (registry w)))"
proof -
  define w1 where "w1 = logged w [rqA] (registry w)"
  have s1: "simulateTransaction E (JStr (str_of (qr_cardToken req))) cents None w =
      (if reply_fails rA then Inl (reply_error rA) else Inr (reply_data rA), w1)"
    using simulateTransaction_reply [of E w "JStr (str_of (qr_cardToken req))" cents None rA] rA
    by (simp add: rqA w1_def logged_def)
  have s2: "clearTransaction E (transaction_token (reply_data rA)) cents w1 =
      (if reply_fails rC then Inl (reply_error rC) else Inr (reply_data rC),
       logged w [rqA, rqC] (registry w))"
    using clearTransaction_reply [of E w1 "transaction_token (reply_data rA)" cents rC] rC
    by (simp add: rqC w1_def logged_def)
  have ac': "(case qr_autoClear req of None \<Rightarrow> True | Some b \<Rightarrow> b) = autoClear"
    by (simp add: ac split: option.splits)
  show ?thesis
    by (simp add: qr_pay_handler_def run_try_def qr_pay_try_def Let_def
        cents [symmetric] ac' bindE_def pure_step_def s1 s2 clear_condition_eq qr_clear_def
        transaction_token_def [symmetric] w1_def [symmetric])
qed

lemma pin_token_run:
  assumes cents: "cents = Math_round (double_times (num_of (pin_amount req)) 100)"
      and rqA: "rqA = auth_request (JStr (str_of (pin_card req))) cents None"
      and rA: "upstream E (length (calls w)) rqA = rA"
      and rqC: "rqC = clearing_request (transaction_token (reply_data rA)) cents"
      and rC: "upstream E (length (calls w) + 1) rqC = rC"
  shows "pin_token_handler E req w =
     (if pin_method req \<noteq> ''POST'' then (method_not_allowed, w)
      else if str_missing (pin_card req) \<or> str_missing (pin_pin req) \<or> num_missing (pin_amount req)
        then (bad_request ''Missing required fields'', w)
      else if length (str_of (pin_pin req)) \<noteq> 6 then (bad_request ''Invalid PIN length'', w)
      else if str_of (pin_pin req) \<noteq> DEMO_PIN
        then ((401, JObj [(''error'', JStr ''Invalid PIN. Use demo PIN: 123456'')]), w)
      else if reply_fails rA then
        (payment_error_response (reply_error rA), logged w [rqA] (registry w))
      else if nullish (reply_data rA) then
        (payment_error_response (type_error (reply_data rA) ''transaction''),
         logged w [rqA] (registry w))
      else if truthy (transaction_token (reply_data rA)) then
        (if reply_fails rC then
           ((200, JObj [(''success'', JBool True),
                        (''data'', with_fields (reply_data rA)
                           [(''warning'', JStr ''Transaction authorized but auto-clear failed'')])]),
            logged w [rqA, rqC] (registry w))
         else
           ((200, JObj [(''success'', JBool True),
                        (''data'', JObj
                           [(''transaction'', cleared_copy (reply_data rA)),
                            (''gpa_order'', opt_prop (reply_data rA) ''gpa_order''),
                            (''cleared'', JBool True),
                            (''cardLast4'', JStr (slice_last 4 (str_of (pin_card req)))),
                            (''amount'', JNum (num_of (pin_amount req)))])]),
            logged w [rqA, rqC] (registry w)))
      else
        ((200, JObj [(''success'', JBool True), (''data'', reply_data rA)]),
         logged w [rqA] (registry w)))"
proof -
  define w1 where "w1 = logged w [rqA] (registry w)"
  have s1: "simulateTransaction E (JStr (str_of (pin_card req))) cents None w =
      (if reply_fails rA then Inl (reply_error rA) else Inr (reply_data rA), w1)"
    using simulateTransaction_reply [of E w "JStr (str_of (pin_card req))" cents None rA] rA
    by (simp add: rqA w1_def logged_def)
  have s2: "clearTransaction E (transaction_token (reply_data rA)) cents w1 =
      (if reply_fails rC then Inl (reply_error rC) else Inr (reply_data rC),
       logged w [rqA, rqC] (registry w))"
    using clearTransaction_reply [of E w1 "transaction_token (reply_data rA)" cents rC] rC
    by (simp add: rqC w1_def logged_def)
  show ?thesis
    by (simp add: pin_token_handler_def run_try_def pin_token_try_def Let_def
        cents [symmetric] bindE_def pure_step_def s1 s2 clear_condition_eq pin_token_clear_def
        transaction_token_def [symmetric] w1_def [symmetric])
qed

lemma replies_same: "replies E w w = []"
  by (simp add: replies_def new_calls_def)

lemma replies_one:
  "upstream E (length (calls w)) rq = r \<Longrightarrow> replies E w (logged w [rq] g) = [r]"
  by (simp add: replies_logged)

lemma replies_two:
  "upstream E (length (calls w)) rq = r \<Longrightarrow> upstream E (length (calls w) + 1) rq' = r' \<Longrightarrow>
     replies E w (logged w [rq, rq'] g) = [r, r']"
  by (simp add: replies_logged)

lemma nfc_two_calls:
  assumes run: "nfc_pay_handler E req w = (response, w')"
      and two: "replies E w w' = [auth, clearing]"
  shows "\<not> reply_fails auth \<and> truthy (transaction_token (reply_data auth))
       \<and> nfc_autoClear req \<noteq> Some False
       \<and> response =
           (if reply_fails clearing then
              (200, JObj [(''success'', JBool True),
                          (''data'', with_fields (reply_data auth)
                             [(''warning'', JStr ''Transaction authorized but auto-clear failed''),
                              (''cardLast4'', JStr (slice_last 4 (str_of (nfc_pan req))))])])
            else
              (200, JObj [(''success'', JBool True),
                          (''data'', JObj
                             [(''transaction'', cleared_copy (reply_data auth)),
                              (''gpa_order'', opt_prop (reply_data auth) ''gpa_order''),
                              (''cleared'', JBool True),
                              (''cardLast4'', JStr (slice_last 4 (str_of (nfc_pan req))))])]))"
  using run two
  unfolding nfc_pay_run [OF refl refl refl refl refl refl refl refl]
  by (auto simp add: replies_same replies_one replies_two split: if_splits)

lemma qr_two_calls:
  assumes run: "qr_pay_handler E req w = (response, w')"
      and two: "replies E w w' = [auth, clearing]"
  shows "\<not> reply_fails auth \<and> truthy (transaction_token (reply_data auth))
       \<and> qr_autoClear req \<noteq> Some False
       \<and> response =
           (if reply_fails clearing then
              (200, JObj [(''success'', JBool True),
                          (''data'', with_fields (reply_data auth)
                             [(''warning'', JStr ''Transaction authorized but auto-clear failed'')])])
            else
              (200, JObj [(''success'', JBool True),
                          (''data'', JObj
                             [(''transaction'', cleared_copy (reply_data auth)),
                              (''gpa_order'', opt_prop (reply_data auth) ''gpa_order''),
                              (''cleared'', JBool True)])]))"
  using run two
  unfolding qr_pay_run [OF refl refl refl refl refl refl]
  by (auto simp add: replies_same replies_one replies_two split: if_splits)

lemma pin_token_two_calls:
  assumes run: "pin_token_handler E req w = (response, w')"
      and two: "replies E w w' = [auth, clearing]"
  shows "\<not> reply_fails auth \<and> truthy (transaction_token (reply_data auth))
       \<and> response =
           (if reply_fails clearing then
              (200, JObj [(''success'', JBool True),
                          (''data'', with_fields (reply_data auth)
                             [(''warning'', JStr ''Transaction authorized but auto-clear failed'')])])
            else
              (200, JObj [(''success'', JBool True),
                          (''data'', JObj
                             [(''transaction'', cleared_copy (reply_data auth)),
                              (''gpa_order'', opt_prop (reply_data auth) ''gpa_order''),
                              (''cleared'', JBool True),
                              (''cardLast4'', JStr (slice_last 4 (str_of (pin_card req)))),
                              (''amount'', JNum (num_of (pin_amount req)))])]))"
  using run two
  unfolding pin_token_run [OF refl refl refl refl refl]
  by (auto simp add: replies_same replies_one replies_two split: if_splits)

lemma map_of_obj_set: "map_of (obj_set fs k v) k' = (if k' = k then Some v else map_of fs k')"
  by (induction fs k v rule: obj_set.induct) auto

lemma token_needs_object:
  "truthy (opt_prop v k) \<Longrightarrow> \<exists>fs. v = JObj fs"
  by (cases v) (simp_all add: opt_prop_def)

lemma auth_amount: "at_path (body_of (auth_request tok amt wh)) [''amount''] = JStr (num_toString amt)"
  by (simp add: auth_request_def api_request_def transactionData_def body_of_def opt_prop_def)

lemma auth_card_token: "at_path (body_of (auth_request tok amt wh)) [''card_token''] = tok"
  by (simp add: auth_request_def api_request_def transactionData_def body_of_def opt_prop_def)

lemma clearing_amount:
  "at_path (body_of (clearing_request tok amt)) [''amount''] = JNum (double_divide amt 100)"
  by (simp add: clearing_request_def api_request_def clearingData_def body_of_def opt_prop_def)

lemma digit_count_bounds:
  "2 \<le> b \<Longrightarrow> 0 < n \<Longrightarrow> b ^ (digit_count b n - 1) \<le> n \<and> n < b ^ digit_count b n"
proof (induction b n rule: digit_count.induct)
  case (1 b n)
  show ?case
  proof (cases "n < b")
    case True
    with 1(2,3) show ?thesis by (subst (1 2) digit_count.simps) simp
  next
    case False
    with 1(2) have pos: "0 < n div b" by (simp add: div_greater_zero_iff)
    from False 1(2) have unf: "digit_count b n = Suc (digit_count b (n div b))"
      by (subst digit_count.simps) simp
    from 1(1) False 1(2) pos
    have ih: "b ^ (digit_count b (n div b) - 1) \<le> n div b \<and> n div b < b ^ digit_count b (n div b)"
      by simp
    have dpos: "0 < digit_count b (n div b)"
      by (subst digit_count.simps) simp
    from ih have "b * b ^ (digit_count b (n div b) - 1) \<le> b * (n div b)" by simp
    also have "\<dots> \<le> n" by simp
    finally have lower: "b ^ digit_count b (n div b) \<le> n"
      using dpos by (cases "digit_count b (n div b)") simp_all
    from ih have "Suc (n div b) \<le> b ^ digit_count b (n div b)" by simp
    then have "b * Suc (n div b) \<le> b * b ^ digit_count b (n div b)" by (rule mult_le_mono2)
    moreover have "n < b * Suc (n div b)"
      using 1(2) by (simp add: dividend_less_times_div mult.commute)
    ultimately have upper: "n < b ^ Suc (digit_count b (n div b))" by simp
    from lower upper show ?thesis by (simp add: unf)
  qed
qed

lemma round_half_even_int: "round_half_even (of_int j) = j"
  by (simp add: round_half_even_def)

lemma to_double_int:
  assumes pos: "0 < i" and small: "i < 2 ^ 53"
  shows "to_double (of_int i) = of_int i"
proof -
  define c where "c = digit_count 2 (nat i)"
  from digit_count_bounds [of 2 "nat i"] pos
  have b: "2 ^ (c - 1) \<le> nat i" "nat i < 2 ^ c" by (simp_all add: c_def)
  have cpos: "0 < c" unfolding c_def by (subst digit_count.simps) simp
  have "nat i < 2 ^ 53"
    using small pos by (simp add: nat_less_iff)
  with b(1) have lt: "(2::nat) ^ (c - 1) < 2 ^ 53" by (rule le_less_trans)
  have c53: "c - 1 < 53" by (rule power_less_imp_less_exp [OF _ lt]) simp
  have one: "digit_count 2 (Suc 0) = 1" by (subst digit_count.simps) simp
  have le: "(2::rat) ^ (c - 1) \<le> of_int i"
  proof -
    from b(1) have "int (2 ^ (c - 1)) \<le> i" using pos by linarith
    then have "(of_int (int (2 ^ (c - 1))) :: rat) \<le> of_int i" by (simp only: of_int_le_iff)
    then show ?thesis by simp
  qed
  have fl: "floor_log 2 (of_int i) = int c - 1"
    using le cpos by (simp add: floor_log_def c_def [symmetric] one int_power_def nat_diff_distrib of_nat_diff)
  define k where "k = 53 - c"
  have e: "int c - 53 = - int k" using c53 cpos by (simp add: k_def)
  have ulp: "int_power 2 (int c - 53) = 1 / 2 ^ k"
    by (cases "k = 0") (simp_all add: e int_power_def)
  have "rat_of_int i * 2 ^ k = of_int (i * 2 ^ k)" by simp
  then have r: "round_half_even (rat_of_int i * 2 ^ k) = i * 2 ^ k"
    by (simp only: round_half_even_int)
  have m: "max (int c - 1) (- 1022) = int c - 1" using cpos by simp
  have "to_double (of_int i) = of_int (round_half_even (rat_of_int i * 2 ^ k)) * (1 / 2 ^ k)"
    using pos by (simp add: to_double_def fl m ulp Let_def)
  also have "\<dots> = of_int i" by (simp add: r)
  finally show ?thesis .
qed

lemmas to_double_small =
  to_double_int [of 10, simplified] to_double_int [of 20, simplified]
  to_double_int [of 100, simplified] to_double_int [of 1000, simplified]
  to_double_int [of 2000, simplified]

lemma ten_times_hundred: "double_times 10 100 = 1000"
  by (simp add: double_times_def to_double_small)

lemma thousand_by_hundred: "double_divide 1000 100 = 10"
  by (simp add: double_divide_def to_double_small)

lemma floor_log_10: "floor_log 10 10 = 1"
  by (simp add: floor_log_def digit_count.simps int_power_def)

lemma floor_log_1000: "floor_log 10 1000 = 3"
  by (simp add: floor_log_def digit_count.simps int_power_def)

lemma num_toString_10: "num_toString 10 = ''10''"
  by (simp add: num_toString_def positive_toString_def to_double_small floor_log_10 candidate_def
      int_power_def Let_def nat_toString.simps digit_char_def numeral_3_eq_3)

lemma num_toString_1000: "num_toString 1000 = ''1000''"
  by (simp add: num_toString_def positive_toString_def to_double_small floor_log_1000 candidate_def
      int_power_def Let_def nat_toString.simps digit_char_def numeral_3_eq_3)

lemma Math_round_int: "Math_round (of_int i) = of_int i"
proof -
  have "\<lfloor>(of_int i :: rat) + 1 / 2\<rfloor> = i"
    by (rule floor_unique) simp_all
  then show ?thesis by (simp add: Math_round_def)
qed

lemma round_thousand: "Math_round 1000 = 1000"
  using Math_round_int [of 1000] by simp

lemmas demo_numbers = to_double_small ten_times_hundred thousand_by_hundred round_thousand

text \<open>
  Claim C5. Take a request to the PAN endpoint whose run made two outbound calls, the
  authorization and the clearing, with the clearing call failing (transport error or
  non-2xx status). Such a run is one with \<^verbatim>\<open>autoClear\<close> on, a successful authorization
  and a transaction token in its response. The endpoint answers 200 with
  \<^verbatim>\<open>success: true\<close>; the data carries the \<^verbatim>\<open>transaction\<close> of the authorization response
  unchanged and the warning \<^verbatim>\<open>Transaction authorized but auto-clear failed\<close>.
\<close>

theorem nfc_clearing_failure_partial_success:
  assumes run: "nfc_pay_handler E req w = (response, w')"
      and two: "replies E w w' = [auth, clearing]"
      and failed: "reply_fails clearing"
  shows "nfc_autoClear req \<noteq> Some False
       \<and> \<not> reply_fails auth
       \<and> truthy (transaction_token (reply_data auth))
       \<and> fst response = 200
       \<and> opt_prop (snd response) ''success'' = JBool True
       \<and> opt_prop (opt_prop (snd response) ''data'') ''transaction''
           = opt_prop (reply_data auth) ''transaction''
       \<and> opt_prop (opt_prop (snd response) ''data'') ''warning''
           = JStr ''Transaction authorized but auto-clear failed''"
proof -
  note T = nfc_two_calls [OF run two]
  from T have "truthy (opt_prop (opt_prop (reply_data auth) ''transaction'') ''token'')"
    by (simp add: transaction_token_def)
  then have "truthy (opt_prop (reply_data auth) ''transaction'')"
    by (cases "opt_prop (reply_data auth) ''transaction''") (simp_all add: opt_prop_def)
  then obtain fs where fs: "reply_data auth = JObj fs"
    using token_needs_object by blast
  from T failed show ?thesis
    by (simp add: fs with_fields_def assign_all_def opt_prop_def map_of_obj_set)
qed

lemma demo_body_auth:
  "demo_body (auth_request tok amt wh)
     = JObj [(''transaction'', JObj [(''token'', JStr ''txn_auth''), (''state'', JStr ''PENDING'')]),
             (''gpa_order'', JObj [(''token'', JStr ''gpa_1'')])]"
  by (simp add: demo_body_def auth_request_def api_request_def MARQETA_API_BASE_def)

lemma demo_body_clearing:
  "demo_body (clearing_request tok amt)
     = JObj [(''transaction'', JObj [(''token'', JStr ''txn_clearing''),
                                     (''state'', JStr ''COMPLETION'')])]"
  by (simp add: demo_body_def clearing_request_def api_request_def MARQETA_API_BASE_def)

lemma space_prefix_plain:
  "\<not> is_space c \<Longrightarrow> c \<notin> set [CHR 0xC2, CHR 0xE1, CHR 0xE2, CHR 0xE3, CHR 0xEF] \<Longrightarrow>
     space_prefix (c # s) = 0"
  by (auto simp add: space_prefix_def wide_spaces_def)

lemma strip_spaces_digit: "is_digit c \<Longrightarrow> strip_spaces (c # s) = c # strip_spaces s"
  by (auto simp add: space_prefix_plain is_digit_def is_space_def)

lemma demo_pan_ok: "panRegex_test ''5112345123451234''"
  by (simp add: panRegex_test_def strip_spaces_digit is_digit_def del: strip_spaces.simps(2))

lemma auth_request_target:
  "req_method (auth_request tok amt wh) = ''POST''"
  "req_url (auth_request tok amt wh)
     = ''https://sandbox-api.marqeta.com/v3/simulations/cardtransactions/authorization''"
  by (simp_all add: auth_request_def api_request_def MARQETA_API_BASE_def)

lemma demo_world_calls: "calls demo_world = []"
  by (simp add: demo_world_def)

lemma demo_world_card: "r_card (registry demo_world) = demo_card"
  by (simp add: demo_world_def)

lemma demo_nfc_run:
  assumes "0 \<notin> set rejected"
  shows "nfc_pay_handler (demo_env rejected) nfc_ten demo_world =
      (if 1 \<in> set rejected then
         (200, JObj [(''success'', JBool True),
                     (''data'', with_fields (demo_body (auth_request (JStr ''card_83780004_k3x9'') 1000 None))
                        [(''warning'', JStr ''Transaction authorized but auto-clear failed''),
                         (''cardLast4'', JStr ''1234'')])])
       else
         (200, JObj [(''success'', JBool True),
                     (''data'', JObj
                        [(''transaction'', cleared_copy (demo_body (auth_request (JStr ''card_83780004_k3x9'') 1000 None))),
                         (''gpa_order'', JObj [(''token'', JStr ''gpa_1'')]),
                         (''cleared'', JBool True),
                         (''cardLast4'', JStr ''1234'')])]),
       logged demo_world
         [auth_request (JStr ''card_83780004_k3x9'') 1000 None,
          clearing_request (JStr ''txn_auth'') 1000] (registry demo_world))"
  using assms
  unfolding nfc_pay_run [OF refl refl refl refl refl refl refl refl]
  by (simp add: nfc_ten_def str_missing_def str_of_def num_of_def num_missing_def amount_invalid_def
      demo_pan_ok demo_world_calls demo_world_card demo_card_def opt_prop_def demo_numbers
      demo_accepts demo_rejects response_ok_def transaction_token_def slice_last_def
      demo_body_auth demo_body_clearing)

lemma demo_nfc_replies:
  assumes "0 \<notin> set rejected"
  shows "replies (demo_env rejected) demo_world
           (snd (nfc_pay_handler (demo_env rejected) nfc_ten demo_world))
         = [upstream (demo_env rejected) 0 (auth_request (JStr ''card_83780004_k3x9'') 1000 None),
            upstream (demo_env rejected) 1 (clearing_request (JStr ''txn_auth'') 1000)]"
  by (simp add: demo_nfc_run [OF assms] replies_logged demo_world_calls)

theorem nfc_clearing_failure_partial_success_witness:
  "reply_fails (upstream (demo_env [1]) 1 (clearing_request (JStr ''txn_auth'') 1000))
   \<and> replies (demo_env [1]) demo_world (snd (nfc_pay_handler (demo_env [1]) nfc_ten demo_world))
       = [upstream (demo_env [1]) 0 (auth_request (JStr ''card_83780004_k3x9'') 1000 None),
          upstream (demo_env [1]) 1 (clearing_request (JStr ''txn_auth'') 1000)]
   \<and> fst (fst (nfc_pay_handler (demo_env [1]) nfc_ten demo_world)) = 200
   \<and> opt_prop (snd (fst (nfc_pay_handler (demo_env [1]) nfc_ten demo_world))) ''success''
       = JBool True
   \<and> opt_prop (opt_prop (snd (fst (nfc_pay_handler (demo_env [1]) nfc_ten demo_world))) ''data'')
        ''transaction''
       = JObj [(''token'', JStr ''txn_auth''), (''state'', JStr ''PENDING'')]"
proof -
  have failed: "reply_fails (upstream (demo_env [1]) 1 (clearing_request (JStr ''txn_auth'') 1000))"
    by (simp add: demo_rejects response_ok_def)
  have two: "replies (demo_env [1]) demo_world (snd (nfc_pay_handler (demo_env [1]) nfc_ten demo_world))
       = [upstream (demo_env [1]) 0 (auth_request (JStr ''card_83780004_k3x9'') 1000 None),
          upstream (demo_env [1]) 1 (clearing_request (JStr ''txn_auth'') 1000)]"
    by (rule demo_nfc_replies) simp
  from nfc_clearing_failure_partial_success [OF prod.collapse [symmetric] two failed] failed two
  show ?thesis
    by (simp add: demo_accepts demo_body_auth opt_prop_def)
qed

text \<open>
  Claim C7, as the code has it. The amount is checked before the card is looked up, so
  the lookup decides only for a \<^verbatim>\<open>POST\<close> with a well-formed PAN and a valid (present,
  positive) amount. For such a request: if the card held in the registry has a \<^verbatim>\<open>pan\<close>
  field equal to the supplied PAN, the first outbound call is the \<^verbatim>\<open>POST\<close> to the
  authorization simulation, and its \<^verbatim>\<open>card_token\<close> is the held card's token. Otherwise
  (no card, or a card whose \<^verbatim>\<open>pan\<close> differs) the endpoint answers 404,
  \<^verbatim>\<open>Card not found. Please setup JIT funding first.\<close>, and the world is unchanged: no
  outbound call is made.
\<close>

theorem nfc_pan_lookup:
  assumes post: "nfc_method req = ''POST''"
      and pan: "nfc_pan req = Some pan"
      and format: "panRegex_test pan"
      and amount: "\<not> amount_invalid (nfc_amount req)"
  shows "(opt_prop (r_card (registry w)) ''pan'' = JStr pan \<longrightarrow>
            new_calls w (snd (nfc_pay_handler E req w)) \<noteq> []
            \<and> req_method (hd (new_calls w (snd (nfc_pay_handler E req w)))) = ''POST''
            \<and> req_url (hd (new_calls w (snd (nfc_pay_handler E req w))))
                = ''https://sandbox-api.marqeta.com/v3/simulations/cardtransactions/authorization''
            \<and> at_path (body_of (hd (new_calls w (snd (nfc_pay_handler E req w))))) [''card_token'']
                = opt_prop (r_card (registry w)) ''token'')
       \<and> (opt_prop (r_card (registry w)) ''pan'' \<noteq> JStr pan \<longrightarrow>
            nfc_pay_handler E req w = (card_not_found, w)
            \<and> card_not_found
                = (404, JObj [(''error'', JStr ''Card not found. Please setup JIT funding first.''),
                              (''hint'', JStr ''The PAN from the NFC card must match the card created in the system.'')]))"
proof -
  have nonempty: "pan \<noteq> []"
    using format by (auto simp add: panRegex_test_def)
  show ?thesis
    unfolding nfc_pay_run [OF refl refl refl refl refl refl refl refl]
    using post pan format amount nonempty
    by (simp add: str_missing_def str_of_def new_calls_logged auth_card_token auth_request_target
        card_not_found_def del: at_path.simps)
qed

theorem nfc_pan_lookup_witness:
  "nfc_method nfc_ten = ''POST'' \<and> nfc_pan nfc_ten = Some ''5112345123451234''
   \<and> panRegex_test ''5112345123451234'' \<and> \<not> amount_invalid (nfc_amount nfc_ten)
   \<and> opt_prop (r_card (registry demo_world)) ''pan'' = JStr ''5112345123451234''
   \<and> new_calls demo_world (snd (nfc_pay_handler (demo_env []) nfc_ten demo_world)) \<noteq> []
   \<and> at_path (body_of (hd (new_calls demo_world
        (snd (nfc_pay_handler (demo_env []) nfc_ten demo_world))))) [''card_token'']
       = JStr ''card_83780004_k3x9''
   \<and> opt_prop (r_card (registry initial_world)) ''pan'' \<noteq> JStr ''5112345123451234''
   \<and> nfc_pay_handler (demo_env []) nfc_ten initial_world = (card_not_found, initial_world)"
proof -
  have post: "nfc_method nfc_ten = ''POST''" by (simp add: nfc_ten_def)
  have pan: "nfc_pan nfc_ten = Some ''5112345123451234''" by (simp add: nfc_ten_def)
  have amount: "\<not> amount_invalid (nfc_amount nfc_ten)"
    by (simp add: nfc_ten_def amount_invalid_def num_missing_def num_of_def demo_numbers)
  have held: "opt_prop (r_card (registry demo_world)) ''pan'' = JStr ''5112345123451234''"
    by (simp add: demo_world_card demo_card_def opt_prop_def)
  have none: "opt_prop (r_card (registry initial_world)) ''pan'' \<noteq> JStr ''5112345123451234''"
    by (simp add: initial_world_def empty_resources_def opt_prop_def)
  have tok: "opt_prop (r_card (registry demo_world)) ''token'' = JStr ''card_83780004_k3x9''"
    by (simp add: demo_world_card demo_card_def opt_prop_def)
  from nfc_pan_lookup [OF post pan demo_pan_ok amount, of demo_world "demo_env []"]
       nfc_pan_lookup [OF post pan demo_pan_ok amount, of initial_world "demo_env []"]
       post pan demo_pan_ok amount held none
  show ?thesis by (simp add: tok del: at_path.simps)
qed

text \<open>
  The lookup does not decide for every request with a well-formed PAN: when the amount
  is missing the answer is 400, \<^verbatim>\<open>Valid amount is required\<close>, with the matching card in
  the registry (and no authorization is made) as well as with no card in it (and the
  answer is not 404).
\<close>

theorem nfc_pan_lookup_counterexample:
  "panRegex_test ''5112345123451234''
   \<and> nfc_pan (nfc_ten\<lparr>nfc_amount := None\<rparr>) = Some ''5112345123451234''
   \<and> opt_prop (r_card (registry demo_world)) ''pan'' = JStr ''5112345123451234''
   \<and> nfc_pay_handler (demo_env []) (nfc_ten\<lparr>nfc_amount := None\<rparr>) demo_world
       = ((400, JObj [(''error'', JStr ''Valid amount is required'')]), demo_world)
   \<and> opt_prop (r_card (registry initial_world)) ''pan'' \<noteq> JStr ''5112345123451234''
   \<and> nfc_pay_handler (demo_env []) (nfc_ten\<lparr>nfc_amount := None\<rparr>) initial_world
       = ((400, JObj [(''error'', JStr ''Valid amount is required'')]), initial_world)"
proof -
  have invalid: "amount_invalid (nfc_amount (nfc_ten\<lparr>nfc_amount := None\<rparr>))"
    by (simp add: amount_invalid_def num_missing_def)
  have run: "nfc_pay_handler (demo_env []) (nfc_ten\<lparr>nfc_amount := None\<rparr>) w
       = ((400, JObj [(''error'', JStr ''Valid amount is required'')]), w)" for w
    using invalid demo_pan_ok
    by (simp add: nfc_pay_handler_def run_try_def nfc_pay_try_def nfc_ten_def str_missing_def
        str_of_def bad_request_def Let_def)
  have held: "opt_prop (r_card (registry demo_world)) ''pan'' = JStr ''5112345123451234''"
    by (simp add: demo_world_card demo_card_def opt_prop_def)
  have none: "opt_prop (r_card (registry initial_world)) ''pan'' \<noteq> JStr ''5112345123451234''"
    by (simp add: initial_world_def empty_resources_def opt_prop_def)
  have pan: "nfc_pan (nfc_ten\<lparr>nfc_amount := None\<rparr>) = Some ''5112345123451234''"
    by (simp add: nfc_ten_def)
  show ?thesis
    by (intro conjI demo_pan_ok pan held run none)
qed




lemma cleared_copy_state: "opt_prop (cleared_copy t) ''state'' = JStr ''CLEARED''"
  by (simp add: cleared_copy_def opt_prop_def map_of_obj_set)

lemma cleared_copy_other:
  assumes "truthy (transaction_token t)" and "k \<noteq> ''state''"
  shows "opt_prop (cleared_copy t) k = opt_prop (opt_prop t ''transaction'') k"
proof -
  from assms(1) obtain fs where "opt_prop t ''transaction'' = JObj fs"
    unfolding transaction_token_def using token_needs_object by blast
  then show ?thesis using assms(2)
    by (simp add: cleared_copy_def opt_prop_def map_of_obj_set)
qed

text \<open>
  Claim C10. Take a run of the PAN, card-token (PIN-gated) or QR endpoint that made the
  authorization and the clearing call, the clearing succeeding. The answer is built from
  the authorization response alone: its \<^verbatim>\<open>transaction\<close> is a copy of the authorization's
  transaction whose \<^verbatim>\<open>state\<close> is \<^verbatim>\<open>CLEARED\<close> and whose other fields are unchanged, with
  \<^verbatim>\<open>cleared: true\<close> beside it. Nothing of the clearing response occurs in it.
\<close>

theorem auto_clear_success_response:
  assumes cleared: "\<not> reply_fails clearing"
  shows "(nfc_pay_handler E nreq w = (response, w') \<and> replies E w w' = [auth, clearing] \<longrightarrow>
            response =
              (200, JObj [(''success'', JBool True),
                          (''data'', JObj
                             [(''transaction'', cleared_copy (reply_data auth)),
                              (''gpa_order'', opt_prop (reply_data auth) ''gpa_order''),
                              (''cleared'', JBool True),
                              (''cardLast4'', JStr (slice_last 4 (str_of (nfc_pan nreq))))])]))
       \<and> (pin_token_handler E preq w = (response, w') \<and> replies E w w' = [auth, clearing] \<longrightarrow>
            response =
              (200, JObj [(''success'', JBool True),
                          (''data'', JObj
                             [(''transaction'', cleared_copy (reply_data auth)),
                              (''gpa_order'', opt_prop (reply_data auth) ''gpa_order''),
                              (''cleared'', JBool True),
                              (''cardLast4'', JStr (slice_last 4 (str_of (pin_card preq)))),
                              (''amount'', JNum (num_of (pin_amount preq)))])]))
       \<and> (qr_pay_handler E qreq w = (response, w') \<and> replies E w w' = [auth, clearing] \<longrightarrow>
            response =
              (200, JObj [(''success'', JBool True),
                          (''data'', JObj
                             [(''transaction'', cleared_copy (reply_data auth)),
                              (''gpa_order'', opt_prop (reply_data auth) ''gpa_order''),
                              (''cleared'', JBool True)])]))
       \<and> opt_prop (cleared_copy (reply_data auth)) ''state'' = JStr ''CLEARED''
       \<and> (truthy (transaction_token (reply_data auth)) \<longrightarrow>
            (\<forall>k. k \<noteq> ''state'' \<longrightarrow>
               opt_prop (cleared_copy (reply_data auth)) k
                 = opt_prop (opt_prop (reply_data auth) ''transaction'') k))"
  using cleared nfc_two_calls [of E nreq w response w' auth clearing]
    qr_two_calls [of E qreq w response w' auth clearing]
    pin_token_two_calls [of E preq w response w' auth clearing]
    cleared_copy_state [of "reply_data auth"] cleared_copy_other [of "reply_data auth"]
  by simp

lemma demo_qr_run:
  "qr_pay_handler (demo_env []) qr_ten demo_world =
     ((200, JObj [(''success'', JBool True),
                  (''data'', JObj
                     [(''transaction'', cleared_copy (demo_body (auth_request (JStr ''card_83780004_k3x9'') 1000 None))),
                      (''gpa_order'', JObj [(''token'', JStr ''gpa_1'')]),
                      (''cleared'', JBool True)])]),
      logged demo_world
        [auth_request (JStr ''card_83780004_k3x9'') 1000 None,
         clearing_request (JStr ''txn_auth'') 1000] (registry demo_world))"
  unfolding qr_pay_run [OF refl refl refl refl refl refl]
  by (simp add: qr_ten_def str_missing_def str_of_def num_of_def num_missing_def amount_invalid_def
      demo_world_calls opt_prop_def demo_numbers
      demo_accepts response_ok_def transaction_token_def demo_body_auth demo_body_clearing)

lemma demo_pin_run:
  "pin_token_handler (demo_env []) pin_ten demo_world =
     ((200, JObj [(''success'', JBool True),
                  (''data'', JObj
                     [(''transaction'', cleared_copy (demo_body (auth_request (JStr ''card_83780004_k3x9'') 1000 None))),
                      (''gpa_order'', JObj [(''token'', JStr ''gpa_1'')]),
                      (''cleared'', JBool True),
                      (''cardLast4'', JStr ''k3x9''),
                      (''amount'', JNum 10)])]),
      logged demo_world
        [auth_request (JStr ''card_83780004_k3x9'') 1000 None,
         clearing_request (JStr ''txn_auth'') 1000] (registry demo_world))"
  unfolding pin_token_run [OF refl refl refl refl refl]
  by (simp add: pin_ten_def str_missing_def str_of_def num_of_def num_missing_def DEMO_PIN_def
      demo_world_calls opt_prop_def demo_numbers slice_last_def
      demo_accepts response_ok_def transaction_token_def demo_body_auth demo_body_clearing)

lemma demo_two_replies:
  "replies (demo_env []) demo_world
     (logged demo_world [auth_request (JStr ''card_83780004_k3x9'') 1000 None,
                         clearing_request (JStr ''txn_auth'') 1000] g)
   = [upstream (demo_env []) 0 (auth_request (JStr ''card_83780004_k3x9'') 1000 None),
      upstream (demo_env []) 1 (clearing_request (JStr ''txn_auth'') 1000)]"
  by (simp add: replies_logged demo_world_calls)

theorem auto_clear_success_response_witness:
  "\<not> reply_fails (upstream (demo_env []) 1 (clearing_request (JStr ''txn_auth'') 1000))
   \<and> replies (demo_env []) demo_world (snd (nfc_pay_handler (demo_env []) nfc_ten demo_world))
       = [upstream (demo_env []) 0 (auth_request (JStr ''card_83780004_k3x9'') 1000 None),
          upstream (demo_env []) 1 (clearing_request (JStr ''txn_auth'') 1000)]
   \<and> replies (demo_env []) demo_world (snd (pin_token_handler (demo_env []) pin_ten demo_world))
       = [upstream (demo_env []) 0 (auth_request (JStr ''card_83780004_k3x9'') 1000 None),
          upstream (demo_env []) 1 (clearing_request (JStr ''txn_auth'') 1000)]
   \<and> replies (demo_env []) demo_world (snd (qr_pay_handler (demo_env []) qr_ten demo_world))
       = [upstream (demo_env []) 0 (auth_request (JStr ''card_83780004_k3x9'') 1000 None),
          upstream (demo_env []) 1 (clearing_request (JStr ''txn_auth'') 1000)]
   \<and> truthy (transaction_token (reply_data
        (upstream (demo_env []) 0 (auth_request (JStr ''card_83780004_k3x9'') 1000 None))))
   \<and> ''token'' \<noteq> ''state''
   \<and> opt_prop (opt_prop (snd (fst (nfc_pay_handler (demo_env []) nfc_ten demo_world))) ''data'')
        ''transaction''
       = JObj [(''token'', JStr ''txn_auth''), (''state'', JStr ''CLEARED'')]
   \<and> opt_prop (opt_prop (snd (fst (pin_token_handler (demo_env []) pin_ten demo_world))) ''data'')
        ''transaction''
       = JObj [(''token'', JStr ''txn_auth''), (''state'', JStr ''CLEARED'')]
   \<and> opt_prop (opt_prop (snd (fst (qr_pay_handler (demo_env []) qr_ten demo_world))) ''data'')
        ''transaction''
       = JObj [(''token'', JStr ''txn_auth''), (''state'', JStr ''CLEARED'')]
   \<and> opt_prop (cleared_copy (reply_data
        (upstream (demo_env []) 0 (auth_request (JStr ''card_83780004_k3x9'') 1000 None)))) ''token''
       = JStr ''txn_auth''"
proof -
  let ?auth = "upstream (demo_env []) 0 (auth_request (JStr ''card_83780004_k3x9'') 1000 None)"
  let ?clearing = "upstream (demo_env []) 1 (clearing_request (JStr ''txn_auth'') 1000)"
  have ok: "\<not> reply_fails ?clearing"
    by (simp add: demo_accepts response_ok_def)
  have n: "replies (demo_env []) demo_world (snd (nfc_pay_handler (demo_env []) nfc_ten demo_world))
       = [?auth, ?clearing]"
    by (rule demo_nfc_replies) simp
  have p: "replies (demo_env []) demo_world (snd (pin_token_handler (demo_env []) pin_ten demo_world))
       = [?auth, ?clearing]"
    by (simp add: demo_pin_run demo_two_replies)
  have q: "replies (demo_env []) demo_world (snd (qr_pay_handler (demo_env []) qr_ten demo_world))
       = [?auth, ?clearing]"
    by (simp add: demo_qr_run demo_two_replies)
  have t: "truthy (transaction_token (reply_data ?auth))"
    by (simp add: demo_accepts demo_body_auth transaction_token_def opt_prop_def)
  have k: "''token'' \<noteq> ''state''" by simp
  have copy: "cleared_copy (reply_data ?auth)
      = JObj [(''token'', JStr ''txn_auth''), (''state'', JStr ''CLEARED'')]"
    by (simp add: demo_accepts demo_body_auth cleared_copy_def opt_prop_def)
  have tok: "opt_prop (opt_prop (reply_data ?auth) ''transaction'') ''token'' = JStr ''txn_auth''"
    by (simp add: demo_accepts demo_body_auth opt_prop_def)
  note T = auto_clear_success_response [OF ok, where auth = ?auth and E = "demo_env []"
      and w = demo_world and nreq = nfc_ten and preq = pin_ten and qreq = qr_ten]
  have "fst (nfc_pay_handler (demo_env []) nfc_ten demo_world)
      = (200, JObj [(''success'', JBool True),
                    (''data'', JObj
                       [(''transaction'', cleared_copy (reply_data ?auth)),
                        (''gpa_order'', opt_prop (reply_data ?auth) ''gpa_order''),
                        (''cleared'', JBool True),
                        (''cardLast4'', JStr (slice_last 4 (str_of (nfc_pan nfc_ten))))])])"
    using T [where response = "fst (nfc_pay_handler (demo_env []) nfc_ten demo_world)"
        and w' = "snd (nfc_pay_handler (demo_env []) nfc_ten demo_world)", THEN conjunct1,
        THEN mp, OF conjI [OF prod.collapse [symmetric] n]]
    by this
  then have rn: "opt_prop (opt_prop (snd (fst (nfc_pay_handler (demo_env []) nfc_ten demo_world)))
        ''data'') ''transaction'' = JObj [(''token'', JStr ''txn_auth''), (''state'', JStr ''CLEARED'')]"
    by (simp add: copy opt_prop_def)
  have "fst (pin_token_handler (demo_env []) pin_ten demo_world)
      = (200, JObj [(''success'', JBool True),
                    (''data'', JObj
                       [(''transaction'', cleared_copy (reply_data ?auth)),
                        (''gpa_order'', opt_prop (reply_data ?auth) ''gpa_order''),
                        (''cleared'', JBool True),
                        (''cardLast4'', JStr (slice_last 4 (str_of (pin_card pin_ten)))),
                        (''amount'', JNum (num_of (pin_amount pin_ten)))])])"
    using T [where response = "fst (pin_token_handler (demo_env []) pin_ten demo_world)"
        and w' = "snd (pin_token_handler (demo_env []) pin_ten demo_world)",
        THEN conjunct2, THEN conjunct1, THEN mp, OF conjI [OF prod.collapse [symmetric] p]]
    by this
  then have rp: "opt_prop (opt_prop (snd (fst (pin_token_handler (demo_env []) pin_ten demo_world)))
        ''data'') ''transaction'' = JObj [(''token'', JStr ''txn_auth''), (''state'', JStr ''CLEARED'')]"
    by (simp add: copy opt_prop_def)
  have "fst (qr_pay_handler (demo_env []) qr_ten demo_world)
      = (200, JObj [(''success'', JBool True),
                    (''data'', JObj
                       [(''transaction'', cleared_copy (reply_data ?auth)),
                        (''gpa_order'', opt_prop (reply_data ?auth) ''gpa_order''),
                        (''cleared'', JBool True)])])"
    using T [where response = "fst (qr_pay_handler (demo_env []) qr_ten demo_world)"
        and w' = "snd (qr_pay_handler (demo_env []) qr_ten demo_world)",
        THEN conjunct2, THEN conjunct2, THEN conjunct1, THEN mp,
        OF conjI [OF prod.collapse [symmetric] q]]
    by this
  then have rq: "opt_prop (opt_prop (snd (fst (qr_pay_handler (demo_env []) qr_ten demo_world)))
        ''data'') ''transaction'' = JObj [(''token'', JStr ''txn_auth''), (''state'', JStr ''CLEARED'')]"
    by (simp add: copy opt_prop_def)
  have "opt_prop (cleared_copy (reply_data ?auth)) ''token''
      = opt_prop (opt_prop (reply_data ?auth) ''transaction'') ''token''"
    using T [where response = "fst (qr_pay_handler (demo_env []) qr_ten demo_world)"
        and w' = "snd (qr_pay_handler (demo_env []) qr_ten demo_world)",
        THEN conjunct2, THEN conjunct2, THEN conjunct2, THEN conjunct2, THEN mp, OF t,
        THEN spec, THEN mp, OF k]
    by this
  with tok have other: "opt_prop (cleared_copy (reply_data ?auth)) ''token'' = JStr ''txn_auth''"
    by simp
  show ?thesis
    by (intro conjI ok n p q t k rn rp rq other)
qed

lemma demo_simulate_run:
  "new_calls demo_world (snd (setup_handler (demo_env []) simulate_ten demo_world))
     = [auth_request (JStr ''card_001'') 10 None]"
  using simulateTransaction_reply [OF refl, where E = "demo_env []" and w = demo_world
      and tok = "JStr ''card_001''" and amt = 10 and wh = None]
  by (simp add: setup_handler_def run_try_def setup_try_block_def simulate_ten_def str_missing_def
      str_of_def num_of_def num_missing_def amount_invalid_def bindE_def pure_step_def
      demo_numbers
      new_calls_def split: if_splits)

lemma demo_clear_run:
  "new_calls demo_world (snd (setup_handler (demo_env []) clear_thousand demo_world))
     = [clearing_request (JStr ''txn_auth'') 1000]"
  using clearTransaction_reply [OF refl, where E = "demo_env []" and w = demo_world
      and tok = "JStr ''txn_auth''" and amt = 1000]
  by (simp add: setup_handler_def run_try_def setup_try_block_def clear_thousand_def str_missing_def
      str_of_def num_of_def num_missing_def amount_invalid_def bindE_def pure_step_def
      demo_numbers
      new_calls_def split: if_splits)

text \<open>
  Claim C3 at its own example. The \<^verbatim>\<open>simulate\<close> action of the dispatcher hands the
  amount to \<^verbatim>\<open>simulateTransaction\<close> as it came: for the amount 10.00 the authorization
  request carries the string \<^verbatim>\<open>10\<close>, not \<^verbatim>\<open>1000\<close>. The PAN endpoint multiplies by 100
  first and sends \<^verbatim>\<open>1000\<close> for the same amount. The \<^verbatim>\<open>clear\<close> action with 1000 cents
  sends the number 10.
\<close>

theorem simulate_action_amount_unconverted:
  "new_calls demo_world (snd (setup_handler (demo_env []) simulate_ten demo_world))
     = [auth_request (JStr ''card_001'') 10 None]
   \<and> at_path (body_of (auth_request (JStr ''card_001'') 10 None)) [''amount''] = JStr ''10''
   \<and> new_calls demo_world (snd (nfc_pay_handler (demo_env []) nfc_ten demo_world))
     = [auth_request (JStr ''card_83780004_k3x9'') 1000 None,
        clearing_request (JStr ''txn_auth'') 1000]
   \<and> at_path (body_of (auth_request (JStr ''card_83780004_k3x9'') 1000 None)) [''amount'']
     = JStr ''1000''
   \<and> new_calls demo_world (snd (setup_handler (demo_env []) clear_thousand demo_world))
     = [clearing_request (JStr ''txn_auth'') 1000]
   \<and> at_path (body_of (clearing_request (JStr ''txn_auth'') 1000)) [''amount''] = JNum 10"
  by (simp add: demo_simulate_run demo_clear_run demo_nfc_run new_calls_logged auth_amount
      clearing_amount num_toString_10 num_toString_1000 thousand_by_hundred del: at_path.simps)

end
